theory Spec2Isabelle
  imports Main "HOL-Library.Word"
begin

section \<open>The CXBIN reader (cxbin\_reader.py)\<close>

text \<open>
  A shallow embedding of \<^verbatim>\<open>src/cxbin_converter/cxbin_reader.py\<close>. The byte source is
  the list of bytes still unread; every function that reads returns the value read
  together with the rest of the stream. An exception of the Python code is a value
  \<open>Inl e\<close>. Python integers are unbounded and are modelled by \<open>int\<close>.
\<close>

subsection \<open>Bytes, errors, external libraries\<close>

type_synonym byte = "8 word"
type_synonym bytes = "byte list"

text \<open>The elements of a numpy array of dtype float32 or int32: four bytes each. A float
  is kept as its bit pattern; an int32 is read with \<open>sint\<close>.\<close>

type_synonym float32 = "32 word"
type_synonym int32 = "32 word"

text \<open>A Python \<open>str\<close>: its code points.\<close>

type_synonym py_str = "nat list"

datatype error =
    EOFError
  | ZlibError
  | SizeMismatch nat int
  | GeometrySizeMismatch nat int
  | MaterialBlockTruncated
  | OldBlockTruncated
  | NumpyValueError

text \<open>
  \<^item> \<open>EOFError\<close>: raised by \<open>_read_exact\<close>;
  \<^item> \<open>ZlibError\<close>: \<open>zlib.error\<close>, raised by \<open>zlib.decompress\<close>;
  \<^item> \<open>SizeMismatch got expected\<close>: the ValueError of \<open>_zlib_decompress\<close>;
  \<^item> \<open>GeometrySizeMismatch got expected\<close>: the ValueError of \<open>_parse_mesh_block\<close>;
  \<^item> \<open>MaterialBlockTruncated\<close>, \<open>OldBlockTruncated\<close>: the ValueError of \<open>take\<close> in the
    new and in the old material parser;
  \<^item> \<open>NumpyValueError\<close>: the ValueError of \<open>np.frombuffer\<close> and of \<open>reshape\<close>.

  The code calls three library functions whose code is not part of the repository. They
  are parameters of the model, so that every theorem holds for whatever they compute:
  \<open>zlib.decompress\<close> (\<open>None\<close> when it raises), the PNG encoder of Pillow behind
  \<open>_try_png_bytes_from_rgba\<close> (\<open>None\<close> when it raises any exception), and
  \<open>bytes.decode("utf-8", errors="replace")\<close>.
\<close>

record libs =
  zlib_lib :: "bytes \<Rightarrow> bytes option"
  try_png_bytes_from_rgba :: "int \<Rightarrow> int \<Rightarrow> bytes \<Rightarrow> bytes option"
  decode_utf8_replace :: "bytes \<Rightarrow> py_str"

definition bindE :: "error + 'a \<Rightarrow> ('a \<Rightarrow> error + 'b) \<Rightarrow> error + 'b" where
  "bindE m k = (case m of Inl e \<Rightarrow> Inl e | Inr x \<Rightarrow> k x)"

subsection \<open>Reading the stream\<close>

text \<open>\<open>_read_exact(f, n)\<close>: \<open>f.read(n)\<close> returns at most \<open>n\<close> bytes, and everything
  that is left when \<open>n\<close> is negative; in that case the length read differs from \<open>n\<close>
  as well.\<close>

definition read_exact :: "int \<Rightarrow> bytes \<Rightarrow> error + (bytes \<times> bytes)" where
  "read_exact n f =
     (if n < 0 \<or> int (length f) < n then Inl EOFError
      else Inr (take (nat n) f, drop (nat n) f))"

text \<open>\<open>struct.unpack("<i", b)\<close>: little-endian, two's complement.\<close>

definition word_le :: "bytes \<Rightarrow> 32 word" where
  "word_le bs = word_of_nat (foldr (\<lambda>b acc. unat b + 256 * acc) bs 0)"

definition unpack_i32_le :: "bytes \<Rightarrow> int" where
  "unpack_i32_le bs = sint (word_le bs)"

definition read_int_le :: "bytes \<Rightarrow> error + (int \<times> bytes)" where
  "read_int_le f = bindE (read_exact 4 f) (\<lambda>(b, f'). Inr (unpack_i32_le b, f'))"

definition read_bytes :: "int \<Rightarrow> bytes \<Rightarrow> error + (bytes \<times> bytes)" where
  "read_bytes n f = read_exact n f"

text \<open>\<open>struct.unpack_from("<i", raw, ptr)\<close>, called only where \<open>ptr + 4 \<le> len(raw)\<close>.\<close>

definition unpack_from :: "bytes \<Rightarrow> nat \<Rightarrow> int" where
  "unpack_from raw ptr = unpack_i32_le (take 4 (drop ptr raw))"

definition zlib_decompress :: "libs \<Rightarrow> bytes \<Rightarrow> int option \<Rightarrow> error + bytes" where
  "zlib_decompress c buf expected_size =
     (case zlib_lib c buf of
        None \<Rightarrow> Inl ZlibError
      | Some raw \<Rightarrow>
          (case expected_size of
             None \<Rightarrow> Inr raw
           | Some e \<Rightarrow>
               if int (length raw) \<noteq> e then Inl (SizeMismatch (length raw) e)
               else Inr raw))"

subsection \<open>numpy: frombuffer and reshape\<close>

primrec rows :: "nat \<Rightarrow> nat \<Rightarrow> 'a list \<Rightarrow> 'a list list" where
  "rows 0 c xs = []"
| "rows (Suc r) c xs = take c xs # rows r c (drop c xs)"

text \<open>\<open>np.frombuffer(buf, dtype)\<close> for a dtype of four bytes: the buffer's length must
  be a multiple of four.\<close>

definition frombuffer :: "bytes \<Rightarrow> error + 32 word list" where
  "frombuffer buf =
     (if length buf mod 4 \<noteq> 0 then Inl NumpyValueError
      else Inr (map word_le (rows (length buf div 4) 4 buf)))"

text \<open>\<open>a.reshape((r, c))\<close> for a constant \<open>c\<close>: a negative \<open>r\<close> (the code can pass
  one, numpy documents -1) is the dimension numpy infers, which needs the number of
  elements to be a multiple of \<open>c\<close>; otherwise \<open>r * c\<close> must be the number of elements.\<close>

definition reshape :: "'a list \<Rightarrow> int \<Rightarrow> nat \<Rightarrow> error + 'a list list" where
  "reshape a r c =
     (if r < 0 then
        (if c = 0 \<or> length a mod c \<noteq> 0 then Inl NumpyValueError
         else Inr (rows (length a div c) c a))
      else if nat r * c = length a then Inr (rows (nat r) c a)
      else Inl NumpyValueError)"

text \<open>Python slices \<open>xs[:stop]\<close> and \<open>xs[start:]\<close>: a negative bound counts from the
  end, and every bound is clamped to the list.\<close>

definition py_index :: "nat \<Rightarrow> int \<Rightarrow> nat" where
  "py_index len i = (if i < 0 then nat (max 0 (int len + i)) else min len (nat i))"

definition slice_to :: "'a list \<Rightarrow> int \<Rightarrow> 'a list" where
  "slice_to xs stop = take (py_index (length xs) stop) xs"

definition slice_from :: "'a list \<Rightarrow> int \<Rightarrow> 'a list" where
  "slice_from xs start = drop (py_index (length xs) start) xs"

subsection \<open>The data model\<close>

text \<open>A texture entry, the dict \<open>{'data', 'is_png', 'size_hint'}\<close>.\<close>

record texture =
  data :: bytes
  is_png :: bool
  size_hint :: "(int \<times> int) option"

text \<open>\<open>CxbinMaterials\<close>. The attributes \<open>_uvs_internal\<close> and \<open>_face_uvs_internal\<close> are
  set on the object only when the block holds them; \<open>None\<close> stands for an attribute
  that was never set, which is what \<open>getattr(mats, ..., None)\<close> returns.\<close>

record CxbinMaterials =
  material_blocks :: "bytes list"
  material_name :: "py_str option"
  textures :: "texture list"
  texture_ids :: "int32 list option"
  uvs_internal :: "float32 list list option"
  face_uvs_internal :: "int32 list list option"

record CxbinMesh =
  vertices :: "float32 list list"
  faces :: "int32 list list"
  uvs :: "float32 list list option"
  face_uvs :: "int32 list list option"
  materials :: "CxbinMaterials option"
  cxbin_version :: "int option"
  compressed_bytes :: "int option"
  uncompressed_bytes :: "int option"

subsection \<open>The geometry block\<close>

definition parse_mesh_block ::
  "libs \<Rightarrow> bytes \<Rightarrow> error + ((float32 list list \<times> int32 list list \<times> (string \<rightharpoonup> int)) \<times> bytes)"
where
  "parse_mesh_block c f =
     bindE (read_int_le f) (\<lambda>(total_num, f).
     bindE (read_int_le f) (\<lambda>(vert_num, f).
     bindE (read_int_le f) (\<lambda>(face_num, f).
     bindE (read_int_le f) (\<lambda>(compress_num, f).
     bindE (read_bytes compress_num f) (\<lambda>(cdata, f).
     bindE (zlib_decompress c cdata None) (\<lambda>raw.
       let expected = vert_num * 3 * 4 + face_num * 3 * 4 in
       if int (length raw) \<noteq> expected then Inl (GeometrySizeMismatch (length raw) expected)
       else
         let v_buf = slice_to raw (vert_num * 12);
             f_buf = slice_from raw (vert_num * 12)
         in
         bindE (frombuffer v_buf) (\<lambda>va.
         bindE (reshape va vert_num 3) (\<lambda>vertices.
         bindE (frombuffer f_buf) (\<lambda>fa.
         bindE (reshape fa face_num 3) (\<lambda>faces.
           Inr ((vertices, faces,
                 [''compressed_bytes'' \<mapsto> compress_num,
                  ''uncompressed_bytes'' \<mapsto> int (length raw)]), f)))))))))))"

subsection \<open>Pieces shared by the two material parsers\<close>

text \<open>The closure \<open>take(n)\<close> over \<open>raw\<close> and the cursor \<open>ptr\<close>, which starts at 0 and
  never decreases. For \<open>n \<ge> 0\<close> the slice \<open>raw[ptr:ptr+n]\<close> is the next \<open>n\<close> bytes, or
  fewer at the end of the buffer; for \<open>n < 0\<close> its length, which is not negative,
  differs from \<open>n\<close>, so the call raises. The error is the parser's own.\<close>

definition take_chunk :: "error \<Rightarrow> bytes \<Rightarrow> nat \<Rightarrow> int \<Rightarrow> error + (bytes \<times> nat)" where
  "take_chunk err raw ptr n =
     (if n < 0 then Inl err
      else
        let chunk = take (nat n) (drop ptr raw) in
        if int (length chunk) \<noteq> n then Inl err else Inr (chunk, ptr + nat n))"

text \<open>\<open>for _ in range(material_num): material_sizes.append(_read_int_le(f))\<close>; the range
  of a negative number is empty.\<close>

fun read_material_sizes :: "nat \<Rightarrow> bytes \<Rightarrow> int list \<Rightarrow> error + (int list \<times> bytes)" where
  "read_material_sizes 0 f material_sizes = Inr (material_sizes, f)"
| "read_material_sizes (Suc n) f material_sizes =
     bindE (read_int_le f) (\<lambda>(s, f). read_material_sizes n f (material_sizes @ [s]))"

text \<open>An array section: \<open>take(count * cols * 4)\<close>, \<open>np.frombuffer\<close>, \<open>reshape((count, cols))\<close>,
  run only when \<open>count > 0\<close>.\<close>

definition take_array ::
  "error \<Rightarrow> bytes \<Rightarrow> nat \<Rightarrow> int \<Rightarrow> nat \<Rightarrow> error + (32 word list list option \<times> nat)" where
  "take_array err raw ptr count cols =
     (if count > 0 then
        bindE (take_chunk err raw ptr (count * int cols * 4)) (\<lambda>(b, ptr).
        bindE (frombuffer b) (\<lambda>a.
        bindE (reshape a count cols) (\<lambda>r. Inr (Some r, ptr))))
      else Inr (None, ptr))"

definition take_texture_ids ::
  "error \<Rightarrow> bytes \<Rightarrow> nat \<Rightarrow> int \<Rightarrow> error + (int32 list option \<times> nat)" where
  "take_texture_ids err raw ptr texture_id_num =
     (if texture_id_num > 0 then
        bindE (take_chunk err raw ptr (texture_id_num * 4)) (\<lambda>(b, ptr).
        bindE (frombuffer b) (\<lambda>a. Inr (Some a, ptr)))
      else Inr (None, ptr))"

text \<open>\<open>for size in material_sizes: ... append(take(size)) if size > 0 else append(b"")\<close>.\<close>

fun material_blocks_loop ::
  "error \<Rightarrow> bytes \<Rightarrow> nat \<Rightarrow> int list \<Rightarrow> bytes list \<Rightarrow> error + (bytes list \<times> nat)" where
  "material_blocks_loop err raw ptr [] blocks = Inr (blocks, ptr)"
| "material_blocks_loop err raw ptr (sz # sizes) blocks =
     (if sz > 0 then
        bindE (take_chunk err raw ptr sz) (\<lambda>(b, ptr).
          material_blocks_loop err raw ptr sizes (blocks @ [b]))
      else material_blocks_loop err raw ptr sizes (blocks @ [[]]))"

text \<open>\<open>name_bytes.split(b"\x00", 1)[0].decode("utf-8", errors="replace")\<close>.\<close>

definition take_material_name ::
  "libs \<Rightarrow> error \<Rightarrow> bytes \<Rightarrow> nat \<Rightarrow> int \<Rightarrow> error + (py_str option \<times> nat)" where
  "take_material_name c err raw ptr mtl_name_len =
     (if mtl_name_len > 0 then
        bindE (take_chunk err raw ptr mtl_name_len) (\<lambda>(name_bytes, ptr).
          Inr (Some (decode_utf8_replace c (takeWhile (\<lambda>b. b \<noteq> 0) name_bytes)), ptr))
      else Inr (None, ptr))"

definition png_signature :: bytes where
  "png_signature = [0x89, 0x50, 0x4E, 0x47, 0x0D, 0x0A, 0x1A, 0x0A]"

subsection \<open>The new material block\<close>

text \<open>The loop over the map buffers; \<open>texs\<close> is \<open>mats.textures\<close>. \<open>break\<close> leaves
  the loop with the textures appended so far.\<close>

fun maps_loop_new :: "bytes \<Rightarrow> nat \<Rightarrow> nat \<Rightarrow> texture list \<Rightarrow> error + texture list" where
  "maps_loop_new raw ptr 0 texs = Inr texs"
| "maps_loop_new raw ptr (Suc k) texs =
     (if ptr + 4 > length raw then Inr texs
      else
        let buf_size = unpack_from raw ptr;
            ptr = ptr + 4;
            buf_size = (if buf_size < 0 then 0 else buf_size);
            buf_size = (if int ptr + buf_size > int (length raw)
                        then max 0 (int (length raw) - int ptr) else buf_size)
        in
        bindE (if buf_size \<noteq> 0 then take_chunk MaterialBlockTruncated raw ptr buf_size
               else Inr ([], ptr)) (\<lambda>(buf, ptr).
          maps_loop_new raw ptr k
            (texs @ [\<lparr>data = buf, is_png = (take 8 buf = png_signature),
                      size_hint = None\<rparr>])))"

definition parse_material_block_v1_new :: "libs \<Rightarrow> bytes \<Rightarrow> error + (CxbinMaterials \<times> bytes)" where
  "parse_material_block_v1_new c f =
     bindE (read_int_le f) (\<lambda>(total_num, f).
     bindE (read_int_le f) (\<lambda>(uv_num, f).
     bindE (read_int_le f) (\<lambda>(face_uv_num, f).
     bindE (read_int_le f) (\<lambda>(texture_id_num, f).
     bindE (read_int_le f) (\<lambda>(material_num, f).
     bindE (read_material_sizes (nat material_num) f []) (\<lambda>(material_sizes, f).
     bindE (read_int_le f) (\<lambda>(mtl_name_len, f).
     bindE (read_int_le f) (\<lambda>(map_type_count, f).
     bindE (read_int_le f) (\<lambda>(compress_num, f).
     bindE (read_bytes compress_num f) (\<lambda>(cdata, f).
     bindE (zlib_decompress c cdata (Some total_num)) (\<lambda>raw.
     bindE (take_array MaterialBlockTruncated raw 0 uv_num 2) (\<lambda>(uvs_i, ptr).
     bindE (take_array MaterialBlockTruncated raw ptr face_uv_num 3) (\<lambda>(face_uvs_i, ptr).
     bindE (take_texture_ids MaterialBlockTruncated raw ptr texture_id_num) (\<lambda>(tids, ptr).
     bindE (material_blocks_loop MaterialBlockTruncated raw ptr material_sizes []) (\<lambda>(blocks, ptr).
     bindE (take_material_name c MaterialBlockTruncated raw ptr mtl_name_len) (\<lambda>(name, ptr).
     bindE (maps_loop_new raw ptr (nat (max 0 map_type_count)) []) (\<lambda>texs.
       Inr (\<lparr>material_blocks = blocks, material_name = name, textures = texs,
             texture_ids = tids, uvs_internal = uvs_i, face_uvs_internal = face_uvs_i\<rparr>,
            f))))))))))))))))))"

subsection \<open>The legacy combined block\<close>

text \<open>The loop over the map buffers of the old layout: width, height, raw RGBA.\<close>

fun maps_loop_old ::
  "libs \<Rightarrow> bytes \<Rightarrow> nat \<Rightarrow> nat \<Rightarrow> texture list \<Rightarrow> error + texture list" where
  "maps_loop_old c raw ptr 0 texs = Inr texs"
| "maps_loop_old c raw ptr (Suc k) texs =
     (if ptr + 8 > length raw then Inr texs
      else
        let width = unpack_from raw ptr;
            ptr = ptr + 4;
            height = unpack_from raw ptr;
            ptr = ptr + 4
        in
        if width \<le> 0 \<or> height \<le> 0 then
          maps_loop_old c raw ptr k
            (texs @ [\<lparr>data = [], is_png = False, size_hint = Some (width, height)\<rparr>])
        else
          let byte_count = width * height * 4;
              byte_count = (if int ptr + byte_count > int (length raw)
                            then max 0 (int (length raw) - int ptr) else byte_count)
          in
          bindE (if byte_count > 0 then take_chunk OldBlockTruncated raw ptr byte_count
                 else Inr ([], ptr)) (\<lambda>(rgba, ptr).
            maps_loop_old c raw ptr k
              (texs @ [case try_png_bytes_from_rgba c width height rgba of
                         Some png \<Rightarrow>
                           \<lparr>data = png, is_png = True, size_hint = Some (width, height)\<rparr>
                       | None \<Rightarrow>
                           \<lparr>data = rgba, is_png = False, size_hint = Some (width, height)\<rparr>])))"

text \<open>Vertices and faces are read only for a positive count; otherwise the array is
  \<open>np.zeros((0, 3))\<close>.\<close>

definition parse_material_block_v1_old ::
  "libs \<Rightarrow> bytes \<Rightarrow> error + ((CxbinMaterials \<times> float32 list list \<times> int32 list list) \<times> bytes)"
where
  "parse_material_block_v1_old c f =
     bindE (read_int_le f) (\<lambda>(total_num, f).
     bindE (read_int_le f) (\<lambda>(vert_num, f).
     bindE (read_int_le f) (\<lambda>(face_num, f).
     bindE (read_int_le f) (\<lambda>(uv_num, f).
     bindE (read_int_le f) (\<lambda>(face_uv_num, f).
     bindE (read_int_le f) (\<lambda>(texture_id_num, f).
     bindE (read_int_le f) (\<lambda>(material_num, f).
     bindE (read_material_sizes (nat material_num) f []) (\<lambda>(material_sizes, f).
     bindE (read_int_le f) (\<lambda>(mtl_name_len, f).
     bindE (read_int_le f) (\<lambda>(map_type_count, f).
     bindE (read_int_le f) (\<lambda>(compress_num, f).
     bindE (read_bytes compress_num f) (\<lambda>(cdata, f).
     bindE (zlib_decompress c cdata (Some total_num)) (\<lambda>raw.
     bindE (take_array OldBlockTruncated raw 0 vert_num 3) (\<lambda>(va, ptr).
     bindE (take_array OldBlockTruncated raw ptr face_num 3) (\<lambda>(fa, ptr).
     bindE (take_array OldBlockTruncated raw ptr uv_num 2) (\<lambda>(uvs_i, ptr).
     bindE (take_array OldBlockTruncated raw ptr face_uv_num 3) (\<lambda>(face_uvs_i, ptr).
     bindE (take_texture_ids OldBlockTruncated raw ptr texture_id_num) (\<lambda>(tids, ptr).
     bindE (material_blocks_loop OldBlockTruncated raw ptr material_sizes []) (\<lambda>(blocks, ptr).
     bindE (take_material_name c OldBlockTruncated raw ptr mtl_name_len) (\<lambda>(name, ptr).
     bindE (maps_loop_old c raw ptr (nat (max 0 map_type_count)) []) (\<lambda>texs.
       Inr ((\<lparr>material_blocks = blocks, material_name = name, textures = texs,
              texture_ids = tids, uvs_internal = uvs_i, face_uvs_internal = face_uvs_i\<rparr>,
             (case va of Some r \<Rightarrow> r | None \<Rightarrow> []),
             (case fa of Some r \<Rightarrow> r | None \<Rightarrow> [])),
            f))))))))))))))))))))))"

subsection \<open>The entry point\<close>

text \<open>\<open>load_cxbin\<close> on the bytes of the file. Only the \<open>EOFError\<close> of the version read
  is caught.\<close>

definition load_cxbin :: "libs \<Rightarrow> bytes \<Rightarrow> error + CxbinMesh" where
  "load_cxbin c f =
     bindE (read_int_le f) (\<lambda>(head_code, f).
     bindE (read_bytes 12 f) (\<lambda>(skipped, f).
       if head_code \<noteq> 1 then
         bindE (parse_mesh_block c f) (\<lambda>((vs, fs, meta), f).
           case read_int_le f of
             Inl e \<Rightarrow>
               (if e = EOFError then
                  Inr \<lparr>vertices = vs, faces = fs, uvs = None, face_uvs = None,
                       materials = None, cxbin_version = None,
                       compressed_bytes = meta ''compressed_bytes'',
                       uncompressed_bytes = meta ''uncompressed_bytes''\<rparr>
                else Inl e)
           | Inr (version, f) \<Rightarrow>
               bindE (if version = 0 then Inr None
                      else if version = 1 then
                        bindE (parse_material_block_v1_new c f) (\<lambda>(m, f). Inr (Some m))
                      else Inr None) (\<lambda>mats.
                 Inr \<lparr>vertices = vs, faces = fs,
                      uvs = (case mats of Some m \<Rightarrow> uvs_internal m | None \<Rightarrow> None),
                      face_uvs = (case mats of Some m \<Rightarrow> face_uvs_internal m | None \<Rightarrow> None),
                      materials = mats, cxbin_version = Some version,
                      compressed_bytes = meta ''compressed_bytes'',
                      uncompressed_bytes = meta ''uncompressed_bytes''\<rparr>))
       else
         bindE (parse_material_block_v1_old c f) (\<lambda>((mats, vs, fs), f).
           Inr \<lparr>vertices = vs, faces = fs,
                uvs = uvs_internal mats, face_uvs = face_uvs_internal mats,
                materials = Some mats, cxbin_version = Some 1,
                compressed_bytes = None, uncompressed_bytes = None\<rparr>)))"

subsection \<open>One instance of the libraries, for concrete files\<close>

text \<open>
  The concrete files of this development are decoded with \<open>example_libs\<close>. Its
  decompressor reads a zlib stream that consists of one final stored block, which is
  what \<open>zlib.compress(data, 0)\<close> writes for less than 65536 bytes: the two header bytes,
  the block header, the length and its complement, the bytes, and their Adler-32
  checksum. On such a stream it returns what \<open>zlib.decompress\<close> returns; every other
  input it refuses. Its image encoder stands in for Pillow: it accepts a buffer of exactly
  \<open>width * height * 4\<close> bytes, for which it answers the PNG signature followed by the
  pixels, and refuses every other buffer. Its text decoder is right on ASCII. The
  theorems below hold for every decompressor, encoder and decoder; this instance only
  serves to run them on concrete files.
\<close>

definition adler32 :: "bytes \<Rightarrow> nat" where
  "adler32 bs =
     (let (a, b) = foldl (\<lambda>(a, b) x. let a' = (a + unat x) mod 65521
                                       in (a', (b + a') mod 65521)) (1, 0) bs
      in b * 65536 + a)"

definition stored_inflate :: "bytes \<Rightarrow> bytes option" where
  "stored_inflate buf =
     (case buf of
        cmf # flg # hdr # l0 # l1 # n0 # n1 # rest \<Rightarrow>
          let len = unat l0 + 256 * unat l1 in
          if cmf = 0x78 \<and> (30720 + unat flg) mod 31 = 0 \<and> \<not> bit flg 5 \<and> hdr = 0x01
             \<and> unat n0 = 255 - unat l0 \<and> unat n1 = 255 - unat l1
             \<and> length rest = len + 4
             \<and> foldl (\<lambda>acc b. 256 * acc + unat b) 0 (drop len rest) = adler32 (take len rest)
          then Some (take len rest) else None
      | _ \<Rightarrow> None)"

definition example_libs :: libs where
  "example_libs =
     \<lparr>zlib_lib = stored_inflate,
      try_png_bytes_from_rgba =
        (\<lambda>w h rgba. if int (length rgba) = w * h * 4 then Some (png_signature @ rgba) else None),
      decode_utf8_replace = map unat\<rparr>"

text \<open>\<open>struct.pack("<i", n)\<close>, to write the fields of a concrete file.\<close>

definition pack_i32_le :: "int \<Rightarrow> bytes" where
  "pack_i32_le n =
     [word_of_int (n mod 256), word_of_int (n div 256 mod 256),
      word_of_int (n div 65536 mod 256), word_of_int (n div 16777216 mod 256)]"

text \<open>A geometry payload of one vertex \<open>(1.0, 2.0, 3.0)\<close> and one face \<open>(0, 0, 0)\<close>, its
  zlib stream, and the zlib stream of the empty payload.\<close>

definition geometry_raw :: bytes where
  "geometry_raw =
    [0x00, 0x00, 0x80, 0x3F, 0x00, 0x00, 0x00, 0x40, 0x00, 0x00, 0x40, 0x40, 0x00, 0x00,
     0x00, 0x00, 0x00, 0x00, 0x00, 0x00, 0x00, 0x00, 0x00, 0x00]"

definition geometry_cdata :: bytes where
  "geometry_cdata =
    [0x78, 0x01, 0x01, 0x18, 0x00, 0xE7, 0xFF, 0x00, 0x00, 0x80, 0x3F, 0x00, 0x00, 0x00,
     0x40, 0x00, 0x00, 0x40, 0x40, 0x00, 0x00, 0x00, 0x00, 0x00, 0x00, 0x00, 0x00, 0x00,
     0x00, 0x00, 0x00, 0x1B, 0x43, 0x01, 0x80]"

definition empty_cdata :: bytes where
  "empty_cdata =
    [0x78, 0x01, 0x01, 0x00, 0x00, 0xFF, 0xFF, 0x00, 0x00, 0x00, 0x01]"

text \<open>The sixteen bytes that start a versioned file (header code 0) and a legacy file
  (header code 1).\<close>

definition versioned_head :: bytes where
  "versioned_head = pack_i32_le 0 @ replicate 12 0"

definition legacy_head :: bytes where
  "legacy_head = pack_i32_le 1 @ replicate 12 0"

text \<open>A versioned file that ends after its geometry block.\<close>

definition geometry_only_file :: bytes where
  "geometry_only_file =
     versioned_head @ pack_i32_le 24 @ pack_i32_le 1 @ pack_i32_le 1 @ pack_i32_le 35
       @ geometry_cdata"

text \<open>A versioned file that declares -1 vertices and 1 face over an empty payload.\<close>

definition negative_count_file :: bytes where
  "negative_count_file =
     versioned_head @ pack_i32_le 0 @ pack_i32_le (- 1) @ pack_i32_le 1 @ pack_i32_le 11
       @ empty_cdata"

text \<open>The same file followed by a version field of 0, of 7, and of 1 with a material
  block that declares nothing and holds the empty payload.\<close>

definition version0_file :: bytes where
  "version0_file = geometry_only_file @ pack_i32_le 0"

definition version7_file :: bytes where
  "version7_file = geometry_only_file @ pack_i32_le 7"

definition empty_material_block :: bytes where
  "empty_material_block =
     pack_i32_le 0 @ pack_i32_le 0 @ pack_i32_le 0 @ pack_i32_le 0 @ pack_i32_le 0
       @ pack_i32_le 0 @ pack_i32_le 0 @ pack_i32_le 11 @ empty_cdata"

definition version1_file :: bytes where
  "version1_file = geometry_only_file @ pack_i32_le 1 @ empty_material_block"

text \<open>A legacy file: one vertex and one face in the combined block, nothing else.\<close>

definition legacy_file :: bytes where
  "legacy_file =
     legacy_head @ pack_i32_le 24 @ pack_i32_le 1 @ pack_i32_le 1 @ pack_i32_le 0
       @ pack_i32_le 0 @ pack_i32_le 0 @ pack_i32_le 0 @ pack_i32_le 0 @ pack_i32_le 0
       @ pack_i32_le 35 @ geometry_cdata"

text \<open>The documents these files decode to.\<close>

definition geometry_only_mesh :: CxbinMesh where
  "geometry_only_mesh =
     \<lparr>vertices = [[0x3F800000, 0x40000000, 0x40400000]], faces = [[0, 0, 0]],
      uvs = None, face_uvs = None, materials = None, cxbin_version = None,
      compressed_bytes = Some 35, uncompressed_bytes = Some 24\<rparr>"

definition no_materials :: CxbinMaterials where
  "no_materials =
     \<lparr>material_blocks = [], material_name = None, textures = [], texture_ids = None,
      uvs_internal = None, face_uvs_internal = None\<rparr>"

text \<open>Material blocks with three declared blobs of sizes 2, 0 and -1 over the payload
  \<open>ab\<close>, in the new and in the legacy layout, and a new material block that declares
  -1 materials over the empty payload.\<close>

definition two_bytes_cdata :: bytes where
  "two_bytes_cdata =
    [0x78, 0x01, 0x01, 0x02, 0x00, 0xFD, 0xFF, 0x61, 0x62, 0x01, 0x26, 0x00, 0xC4]"

definition three_blobs_block :: bytes where
  "three_blobs_block =
     pack_i32_le 2 @ pack_i32_le 0 @ pack_i32_le 0 @ pack_i32_le 0 @ pack_i32_le 3
       @ pack_i32_le 2 @ pack_i32_le 0 @ pack_i32_le (- 1)
       @ pack_i32_le 0 @ pack_i32_le 0 @ pack_i32_le 13 @ two_bytes_cdata"

definition three_blobs_legacy_block :: bytes where
  "three_blobs_legacy_block =
     pack_i32_le 2 @ pack_i32_le 0 @ pack_i32_le 0 @ pack_i32_le 0 @ pack_i32_le 0
       @ pack_i32_le 0 @ pack_i32_le 3
       @ pack_i32_le 2 @ pack_i32_le 0 @ pack_i32_le (- 1)
       @ pack_i32_le 0 @ pack_i32_le 0 @ pack_i32_le 13 @ two_bytes_cdata"

definition three_blobs :: CxbinMaterials where
  "three_blobs = no_materials\<lparr>material_blocks := [[0x61, 0x62], [], []]\<rparr>"

definition negative_material_count_block :: bytes where
  "negative_material_count_block =
     pack_i32_le 0 @ pack_i32_le 0 @ pack_i32_le 0 @ pack_i32_le 0 @ pack_i32_le (- 1)
       @ pack_i32_le 0 @ pack_i32_le 0 @ pack_i32_le 11 @ empty_cdata"

text \<open>A new material block with five declared maps over a payload that holds three: a
  map of 2 bytes, a map of declared size -1, and a map of declared size 100 with 3 bytes
  left. A legacy block with two maps: one pixel with its 4 bytes, and two by two pixels
  with 3 bytes left.\<close>

definition truncated_maps_raw :: bytes where
  "truncated_maps_raw =
    [0x02, 0x00, 0x00, 0x00, 0x78, 0x79, 0xFF, 0xFF, 0xFF, 0xFF, 0x64, 0x00, 0x00, 0x00,
     0x61, 0x62, 0x63]"

definition truncated_maps_cdata :: bytes where
  "truncated_maps_cdata =
    [0x78, 0x01, 0x01, 0x11, 0x00, 0xEE, 0xFF, 0x02, 0x00, 0x00, 0x00, 0x78, 0x79, 0xFF,
     0xFF, 0xFF, 0xFF, 0x64, 0x00, 0x00, 0x00, 0x61, 0x62, 0x63, 0x36, 0xD7, 0x06, 0x7A]"

definition truncated_maps_block :: bytes where
  "truncated_maps_block =
     pack_i32_le 17 @ pack_i32_le 0 @ pack_i32_le 0 @ pack_i32_le 0 @ pack_i32_le 0
       @ pack_i32_le 0 @ pack_i32_le 5 @ pack_i32_le 28 @ truncated_maps_cdata"

definition truncated_maps_textures :: "texture list" where
  "truncated_maps_textures =
     [\<lparr>data = [0x78, 0x79], is_png = False, size_hint = None\<rparr>,
      \<lparr>data = [], is_png = False, size_hint = None\<rparr>,
      \<lparr>data = [0x61, 0x62, 0x63], is_png = False, size_hint = None\<rparr>]"

definition rgba_maps_raw :: bytes where
  "rgba_maps_raw =
    [0x01, 0x00, 0x00, 0x00, 0x01, 0x00, 0x00, 0x00, 0x01, 0x02, 0x03, 0x04, 0x02, 0x00,
     0x00, 0x00, 0x02, 0x00, 0x00, 0x00, 0x09, 0x09, 0x09]"

definition rgba_maps_cdata :: bytes where
  "rgba_maps_cdata =
    [0x78, 0x01, 0x01, 0x17, 0x00, 0xE8, 0xFF, 0x01, 0x00, 0x00, 0x00, 0x01, 0x00, 0x00,
     0x00, 0x01, 0x02, 0x03, 0x04, 0x02, 0x00, 0x00, 0x00, 0x02, 0x00, 0x00, 0x00, 0x09,
     0x09, 0x09, 0x01, 0x1D, 0x00, 0x2C]"

definition rgba_maps_block :: bytes where
  "rgba_maps_block =
     pack_i32_le 23 @ pack_i32_le 0 @ pack_i32_le 0 @ pack_i32_le 0 @ pack_i32_le 0
       @ pack_i32_le 0 @ pack_i32_le 0 @ pack_i32_le 0 @ pack_i32_le 2 @ pack_i32_le 34
       @ rgba_maps_cdata"

definition rgba_maps_textures :: "texture list" where
  "rgba_maps_textures =
     [\<lparr>data = png_signature @ [0x01, 0x02, 0x03, 0x04], is_png = True,
       size_hint = Some (1, 1)\<rparr>,
      \<lparr>data = [0x09, 0x09, 0x09], is_png = False, size_hint = Some (2, 2)\<rparr>]"

section \<open>Properties\<close>

subsection \<open>Reading a field that is there\<close>

lemma read_exact_append: "int (length a) = n \<Longrightarrow> read_exact n (a @ rest) = Inr (a, rest)"
  by (auto simp: read_exact_def)

lemma read_bytes_append: "int (length a) = n \<Longrightarrow> read_bytes n (a @ rest) = Inr (a, rest)"
  by (simp add: read_bytes_def read_exact_append)

lemma read_int_le_append: "length a = 4 \<Longrightarrow> read_int_le (a @ rest) = Inr (unpack_i32_le a, rest)"
  by (simp add: read_int_le_def read_exact_append bindE_def)

lemma length_rows: "length (rows r c xs) = r"
  by (induction r arbitrary: xs) auto

lemma frombuffer_ok: "length buf = 4 * n \<Longrightarrow> frombuffer buf = Inr (map word_le (rows n 4 buf))"
  by (simp add: frombuffer_def)

lemma reshape_ok: "0 \<le> r \<Longrightarrow> length a = nat r * c \<Longrightarrow> reshape a r c = Inr (rows (nat r) c a)"
  by (simp add: reshape_def)

lemma parse_mesh_block_layout:
  assumes "length tn = 4" "length vn = 4" "length fn = 4" "length cn = 4"
    and "unpack_i32_le cn = int (length cdata)"
    and "zlib_lib c cdata = Some raw"
    and "0 \<le> unpack_i32_le vn" "0 \<le> unpack_i32_le fn"
    and "int (length raw) = unpack_i32_le vn * 12 + unpack_i32_le fn * 12"
  shows "parse_mesh_block c (tn @ vn @ fn @ cn @ cdata @ rest) =
     Inr ((rows (nat (unpack_i32_le vn)) 3
             (map word_le (rows (3 * nat (unpack_i32_le vn)) 4 (take (12 * nat (unpack_i32_le vn)) raw))),
           rows (nat (unpack_i32_le fn)) 3
             (map word_le (rows (3 * nat (unpack_i32_le fn)) 4 (drop (12 * nat (unpack_i32_le vn)) raw))),
           [''compressed_bytes'' \<mapsto> unpack_i32_le cn,
            ''uncompressed_bytes'' \<mapsto> int (length raw)]), rest)"
proof -
  define V where "V = nat (unpack_i32_le vn)"
  define F where "F = nat (unpack_i32_le fn)"
  have V: "unpack_i32_le vn = int V" and F: "unpack_i32_le fn = int F"
    using assms by (simp_all add: V_def F_def)
  have len: "length raw = 12 * V + 12 * F"
    using assms(9) unfolding V F by linarith
  have st: "slice_to raw (int V * 12) = take (12 * V) raw"
    by (simp add: slice_to_def py_index_def len nat_mult_distrib mult.commute)
  have sf: "slice_from raw (int V * 12) = drop (12 * V) raw"
    by (simp add: slice_from_def py_index_def len nat_mult_distrib mult.commute)
  have fv: "frombuffer (take (12 * V) raw) = Inr (map word_le (rows (3 * V) 4 (take (12 * V) raw)))"
    by (rule frombuffer_ok) (simp add: len)
  have ff: "frombuffer (drop (12 * V) raw) = Inr (map word_le (rows (3 * F) 4 (drop (12 * V) raw)))"
    by (rule frombuffer_ok) (simp add: len)
  have rv: "reshape (map word_le (rows (3 * V) 4 (take (12 * V) raw))) (int V) 3 =
              Inr (rows V 3 (map word_le (rows (3 * V) 4 (take (12 * V) raw))))"
    using reshape_ok [of "int V" "map word_le (rows (3 * V) 4 (take (12 * V) raw))" 3]
    by (simp add: length_rows mult.commute)
  have rf: "reshape (map word_le (rows (3 * F) 4 (drop (12 * V) raw))) (int F) 3 =
              Inr (rows F 3 (map word_le (rows (3 * F) 4 (drop (12 * V) raw))))"
    using reshape_ok [of "int F" "map word_le (rows (3 * F) 4 (drop (12 * V) raw))" 3]
    by (simp add: length_rows mult.commute)
  show ?thesis
    using assms(1-6) assms(9)
    by (simp add: parse_mesh_block_def read_int_le_append read_bytes_append bindE_def
        zlib_decompress_def V F st sf fv ff rv rf flip: V_def F_def)
qed

subsection \<open>Evaluation of concrete files\<close>

lemma rows_numeral: "rows (numeral k) c xs = take c xs # rows (pred_numeral k) c (drop c xs)"
  by (simp add: numeral_eq_Suc)

lemma inflate_geometry: "stored_inflate geometry_cdata = Some geometry_raw"
  by (simp add: stored_inflate_def geometry_cdata_def geometry_raw_def adler32_def)

lemma inflate_empty: "stored_inflate empty_cdata = Some []"
  by (simp add: stored_inflate_def empty_cdata_def adler32_def)

lemma length_pack [simp]: "length (pack_i32_le n) = 4"
  by (simp add: pack_i32_le_def)

subsection \<open>The dispatch of the entry point\<close>

lemma load_cxbin_versioned:
  assumes "length head = 4" "length pad = 12" "unpack_i32_le head \<noteq> 1"
  shows "load_cxbin c (head @ pad @ body) =
     bindE (parse_mesh_block c body) (\<lambda>((vs, fs, meta), f).
       case read_int_le f of
         Inl e \<Rightarrow>
           (if e = EOFError then
              Inr \<lparr>vertices = vs, faces = fs, uvs = None, face_uvs = None,
                   materials = None, cxbin_version = None,
                   compressed_bytes = meta ''compressed_bytes'',
                   uncompressed_bytes = meta ''uncompressed_bytes''\<rparr>
            else Inl e)
       | Inr (version, f) \<Rightarrow>
           bindE (if version = 0 then Inr None
                  else if version = 1 then
                    bindE (parse_material_block_v1_new c f) (\<lambda>(m, f). Inr (Some m))
                  else Inr None) (\<lambda>mats.
             Inr \<lparr>vertices = vs, faces = fs,
                  uvs = (case mats of Some m \<Rightarrow> uvs_internal m | None \<Rightarrow> None),
                  face_uvs = (case mats of Some m \<Rightarrow> face_uvs_internal m | None \<Rightarrow> None),
                  materials = mats, cxbin_version = Some version,
                  compressed_bytes = meta ''compressed_bytes'',
                  uncompressed_bytes = meta ''uncompressed_bytes''\<rparr>))"
  using assms
  by (simp add: load_cxbin_def read_int_le_append read_bytes_append bindE_def)

lemma load_cxbin_legacy:
  assumes "length head = 4" "length pad = 12" "unpack_i32_le head = 1"
  shows "load_cxbin c (head @ pad @ body) =
     bindE (parse_material_block_v1_old c body) (\<lambda>((mats, vs, fs), f).
       Inr \<lparr>vertices = vs, faces = fs,
            uvs = uvs_internal mats, face_uvs = face_uvs_internal mats,
            materials = Some mats, cxbin_version = Some 1,
            compressed_bytes = None, uncompressed_bytes = None\<rparr>)"
  using assms
  by (simp add: load_cxbin_def read_int_le_append read_bytes_append bindE_def)

lemma read_int_le_short: "length f < 4 \<Longrightarrow> read_int_le f = Inl EOFError"
  by (simp add: read_int_le_def read_exact_def bindE_def)

lemma read_int_le_error: "read_int_le f = Inl e \<Longrightarrow> e = EOFError"
  by (auto simp: read_int_le_def read_exact_def bindE_def split: if_splits)

lemma load_after_geometry:
  assumes "length head = 4" "length pad = 12" "unpack_i32_le head \<noteq> 1"
    and "parse_mesh_block c body = Inr ((vs, fs, meta), rest)"
    and "load_cxbin c (head @ pad @ body) = Inr m"
  shows "vertices m = vs \<and> faces m = fs
     \<and> compressed_bytes m = meta ''compressed_bytes''
     \<and> uncompressed_bytes m = meta ''uncompressed_bytes''"
  using assms(4,5) unfolding load_cxbin_versioned [OF assms(1-3)]
  by (auto simp: bindE_def split: sum.splits if_splits prod.splits)

lemma mesh_block_mismatch:
  assumes "length tn = 4" "length vn = 4" "length fn = 4" "length cn = 4"
    and "unpack_i32_le cn = int (length cdata)"
    and "zlib_lib c cdata = Some raw"
    and "int (length raw) \<noteq> unpack_i32_le vn * 12 + unpack_i32_le fn * 12"
  shows "parse_mesh_block c (tn @ vn @ fn @ cn @ cdata @ rest) =
     Inl (GeometrySizeMismatch (length raw) (unpack_i32_le vn * 12 + unpack_i32_le fn * 12))"
  using assms
  by (simp add: parse_mesh_block_def read_int_le_append read_bytes_append bindE_def
      zlib_decompress_def)

lemmas eval_defs =
  load_cxbin_def parse_mesh_block_def parse_material_block_v1_new_def
  parse_material_block_v1_old_def bindE_def read_int_le_def read_exact_def read_bytes_def
  unpack_i32_le_def unpack_from_def word_le_def pack_i32_le_def zlib_decompress_def
  frombuffer_def reshape_def slice_to_def slice_from_def py_index_def take_chunk_def
  take_array_def take_texture_ids_def take_material_name_def png_signature_def
  example_libs_def versioned_head_def legacy_head_def Let_def rows_numeral

subsection \<open>What a successful read says about the stream\<close>

lemma bindE_Inr [simp]: "bindE (Inr x) k = k x"
  by (simp add: bindE_def)

lemma bindE_Inl [simp]: "bindE (Inl e) k = Inl e"
  by (simp add: bindE_def)

lemma bindE_Inr_iff: "bindE m k = Inr y \<longleftrightarrow> (\<exists>x. m = Inr x \<and> k x = Inr y)"
  by (cases m) (simp_all add: bindE_def)

lemma read_exact_Inr_iff:
  "read_exact n f = Inr (a, f') \<longleftrightarrow> int (length a) = n \<and> f = a @ f'"
proof
  assume "read_exact n f = Inr (a, f')"
  then have n: "0 \<le> n" "n \<le> int (length f)" and a: "a = take (nat n) f"
    and f': "f' = drop (nat n) f"
    by (auto simp: read_exact_def split: if_splits)
  from n a have "int (length a) = n"
    by simp
  moreover from a f' have "f = a @ f'"
    by simp
  ultimately show "int (length a) = n \<and> f = a @ f'" ..
next
  assume "int (length a) = n \<and> f = a @ f'"
  then show "read_exact n f = Inr (a, f')"
    by (simp add: read_exact_append)
qed

lemma read_bytes_Inr_iff:
  "read_bytes n f = Inr (a, f') \<longleftrightarrow> int (length a) = n \<and> f = a @ f'"
  by (simp add: read_bytes_def read_exact_Inr_iff)

lemma read_int_le_Inr_iff:
  "read_int_le f = Inr (n, f') \<longleftrightarrow> (\<exists>b. length b = 4 \<and> f = b @ f' \<and> n = unpack_i32_le b)"
  by (auto simp: read_int_le_def bindE_Inr_iff read_exact_Inr_iff)

lemma parse_mesh_block_fields:
  assumes "length tn = 4" "length vn = 4" "length fn = 4" "length cn = 4"
    and "int (length cdata) = unpack_i32_le cn"
  shows "parse_mesh_block c (tn @ vn @ fn @ cn @ cdata @ r) =
     bindE (zlib_decompress c cdata None) (\<lambda>raw.
       let expected = unpack_i32_le vn * 3 * 4 + unpack_i32_le fn * 3 * 4 in
       if int (length raw) \<noteq> expected then Inl (GeometrySizeMismatch (length raw) expected)
       else
         bindE (frombuffer (slice_to raw (unpack_i32_le vn * 12))) (\<lambda>va.
         bindE (reshape va (unpack_i32_le vn) 3) (\<lambda>vertices.
         bindE (frombuffer (slice_from raw (unpack_i32_le vn * 12))) (\<lambda>fa.
         bindE (reshape fa (unpack_i32_le fn) 3) (\<lambda>faces.
           Inr ((vertices, faces,
                 [''compressed_bytes'' \<mapsto> unpack_i32_le cn,
                  ''uncompressed_bytes'' \<mapsto> int (length raw)]), r))))))"
  using assms unfolding parse_mesh_block_def Let_def
  by (simp add: read_int_le_append read_bytes_append)

lemma parse_mesh_block_Inr_layout:
  assumes "parse_mesh_block c f = Inr (g, f')"
  shows "\<exists>tn vn fn cn cdata. f = tn @ vn @ fn @ cn @ cdata @ f' \<and> length tn = 4
     \<and> length vn = 4 \<and> length fn = 4 \<and> length cn = 4
     \<and> int (length cdata) = unpack_i32_le cn
     \<and> snd (snd g) ''compressed_bytes'' = Some (unpack_i32_le cn)"
proof -
  from assms obtain tn f1 vn f2 fn f3 cn f4 cdata where r:
    "read_int_le f = Inr (tn, f1)" "read_int_le f1 = Inr (vn, f2)"
    "read_int_le f2 = Inr (fn, f3)" "read_int_le f3 = Inr (cn, f4)"
    "read_bytes cn f4 = Inr (cdata, f')"
    by (auto simp: parse_mesh_block_def bindE_Inr_iff Let_def split: if_splits)
  from r(1) obtain b1 where b1: "length b1 = 4" "f = b1 @ f1"
    unfolding read_int_le_Inr_iff by blast
  from r(2) obtain b2 where b2: "length b2 = 4" "f1 = b2 @ f2"
    unfolding read_int_le_Inr_iff by blast
  from r(3) obtain b3 where b3: "length b3 = 4" "f2 = b3 @ f3"
    unfolding read_int_le_Inr_iff by blast
  from r(4) obtain b4 where b4: "length b4 = 4" "f3 = b4 @ f4" "cn = unpack_i32_le b4"
    unfolding read_int_le_Inr_iff by blast
  from r(5) have b5: "int (length cdata) = cn" "f4 = cdata @ f'"
    unfolding read_bytes_Inr_iff by blast+
  have f: "f = b1 @ b2 @ b3 @ b4 @ cdata @ f'"
    by (simp add: b1 b2 b3 b4 b5)
  have l: "int (length cdata) = unpack_i32_le b4"
    using b5(1) b4(3) by simp
  from assms have "snd (snd g) ''compressed_bytes'' = Some (unpack_i32_le b4)"
    unfolding f parse_mesh_block_fields [OF b1(1) b2(1) b3(1) b4(1) l]
    by (auto simp: bindE_Inr_iff Let_def split: if_splits)
  with f b1(1) b2(1) b3(1) b4(1) l show ?thesis
    by blast
qed

lemma parse_mesh_block_frame:
  assumes "parse_mesh_block c f = Inr (g, f')"
  shows "parse_mesh_block c (f @ x) = Inr (g, f' @ x)"
proof -
  from parse_mesh_block_Inr_layout [OF assms] obtain tn vn fn cn cdata where
    f: "f = tn @ vn @ fn @ cn @ cdata @ f'" and l: "length tn = 4" "length vn = 4"
    "length fn = 4" "length cn = 4" "int (length cdata) = unpack_i32_le cn"
    by blast
  from assms show ?thesis
    unfolding f append_assoc parse_mesh_block_fields [OF l]
    by (auto simp: bindE_Inr_iff Let_def split: if_splits)
qed

lemma load_cxbin_Inr_layout:
  assumes "load_cxbin c f = Inr m"
  shows "\<exists>head pad body. f = head @ pad @ body \<and> length head = 4 \<and> length pad = 12"
proof -
  from assms obtain h f1 p f2 where r: "read_int_le f = Inr (h, f1)"
    "read_bytes 12 f1 = Inr (p, f2)"
    by (auto simp: load_cxbin_def bindE_Inr_iff)
  from r(1) obtain b where b: "length b = 4" "f = b @ f1"
    unfolding read_int_le_Inr_iff by blast
  from r(2) have p: "length p = 12" "f1 = p @ f2"
    unfolding read_bytes_Inr_iff by simp_all
  from b p show ?thesis
    by blast
qed

subsection \<open>The example files, decoded\<close>

lemmas eval_files =
  geometry_only_file_def geometry_cdata_def empty_cdata_def stored_inflate_def adler32_def
  eval_defs

lemma load_geometry_only_file: "load_cxbin example_libs geometry_only_file = Inr geometry_only_mesh"
  by (simp add: eval_files geometry_only_mesh_def)

lemma load_version0_file:
  "load_cxbin example_libs version0_file = Inr (geometry_only_mesh\<lparr>cxbin_version := Some 0\<rparr>)"
  by (simp add: version0_file_def eval_files geometry_only_mesh_def)

lemma load_version7_file:
  "load_cxbin example_libs version7_file = Inr (geometry_only_mesh\<lparr>cxbin_version := Some 7\<rparr>)"
  by (simp add: version7_file_def eval_files geometry_only_mesh_def)

lemma load_version1_file:
  "load_cxbin example_libs version1_file =
     Inr (geometry_only_mesh\<lparr>materials := Some no_materials, cxbin_version := Some 1\<rparr>)"
  by (simp add: version1_file_def empty_material_block_def eval_files geometry_only_mesh_def
      no_materials_def)

lemma load_legacy_file:
  "load_cxbin example_libs legacy_file =
     Inr (geometry_only_mesh\<lparr>materials := Some no_materials, cxbin_version := Some 1,
            compressed_bytes := None, uncompressed_bytes := None\<rparr>)"
  by (simp add: legacy_file_def eval_files geometry_only_mesh_def no_materials_def)

subsection \<open>The fields of a header, by their offsets\<close>

lemma read_int_le_Inr_offset:
  "read_int_le f = Inr (n, f') \<longleftrightarrow> 4 \<le> length f \<and> n = unpack_i32_le (take 4 f) \<and> f' = drop 4 f"
  by (auto simp: read_int_le_def read_exact_def bindE_def)

lemma read_material_sizes_Inr:
  "read_material_sizes n f acc = Inr (ss, f') \<Longrightarrow>
     ss = acc @ map (\<lambda>i. unpack_i32_le (take 4 (drop (4 * i) f))) [0..<n] \<and> f' = drop (4 * n) f"
proof (induction n arbitrary: f acc)
  case 0
  then show ?case by simp
next
  case (Suc n)
  from Suc.prems obtain s f1 where r: "read_int_le f = Inr (s, f1)"
    and l: "read_material_sizes n f1 (acc @ [s]) = Inr (ss, f')"
    by (auto simp: bindE_Inr_iff)
  from r have s: "s = unpack_i32_le (take 4 f)" and f1: "f1 = drop 4 f"
    by (simp_all add: read_int_le_Inr_offset)
  from Suc.IH [OF l] have ss: "ss = (acc @ [s])
      @ map (\<lambda>i. unpack_i32_le (take 4 (drop (4 * i) f1))) [0..<n]"
    and f': "f' = drop (4 * n) f1"
    by simp_all
  have "map (\<lambda>i. unpack_i32_le (take 4 (drop (4 * i) f))) [0..<Suc n]
      = unpack_i32_le (take 4 f) # map (\<lambda>i. unpack_i32_le (take 4 (drop (4 * i) f1))) [0..<n]"
    unfolding f1 upt_conv_Cons [OF zero_less_Suc] map_Suc_upt [symmetric]
    by (simp add: add.commute)
  with ss s f' f1 show ?case
    by (simp add: add.commute)
qed

subsection \<open>The cursor inside the decompressed buffer\<close>

lemma take_chunk_Inr:
  assumes "take_chunk err raw ptr n = Inr (b, p)"
  shows "int (length b) = n" and "b = take (nat n) (drop ptr raw)" and "p = ptr + nat n"
    and "ptr \<le> length raw \<Longrightarrow> p \<le> length raw"
proof -
  from assms have n: "0 \<le> n" and b: "b = take (nat n) (drop ptr raw)"
    and l: "int (length b) = n" and p: "p = ptr + nat n"
    by (auto simp: take_chunk_def Let_def split: if_splits)
  show "int (length b) = n" "b = take (nat n) (drop ptr raw)" "p = ptr + nat n"
    by (fact l b p)+
  assume "ptr \<le> length raw"
  with l n show "p \<le> length raw"
    unfolding b p by (simp add: min_def split: if_splits)
qed


lemma material_blocks_loop_Inr:
  "material_blocks_loop err raw ptr sizes blocks = Inr (bs, p) \<Longrightarrow>
     \<exists>bs'. bs = blocks @ bs' \<and> map (\<lambda>b. int (length b)) bs' = map (max 0) sizes"
proof (induction sizes arbitrary: ptr blocks)
  case Nil
  then show ?case by simp
next
  case (Cons sz sizes)
  show ?case
  proof (cases "sz > 0")
    case True
    with Cons.prems obtain b q where t: "take_chunk err raw ptr sz = Inr (b, q)"
      and l: "material_blocks_loop err raw q sizes (blocks @ [b]) = Inr (bs, p)"
      by (auto simp: bindE_Inr_iff)
    from Cons.IH [OF l] obtain bs' where "bs = (blocks @ [b]) @ bs'"
      "map (\<lambda>b. int (length b)) bs' = map (max 0) sizes"
      by blast
    with take_chunk_Inr(1) [OF t] True show ?thesis
      by (intro exI [of _ "b # bs'"]) simp
  next
    case False
    with Cons.prems have l: "material_blocks_loop err raw ptr sizes (blocks @ [[]]) = Inr (bs, p)"
      by simp
    from Cons.IH [OF l] obtain bs' where "bs = (blocks @ [[]]) @ bs'"
      "map (\<lambda>b. int (length b)) bs' = map (max 0) sizes"
      by blast
    with False show ?thesis
      by (intro exI [of _ "[] # bs'"]) simp
  qed
qed

subsection \<open>The material blobs of a parsed block\<close>

lemma parse_new_Inr_blocks:
  assumes "parse_material_block_v1_new c f = Inr (mats, f')"
  shows "\<exists>raw ptr p material_sizes f6.
     read_material_sizes (nat (unpack_i32_le (take 4 (drop 16 f)))) (drop 20 f) []
       = Inr (material_sizes, f6)
     \<and> material_blocks_loop MaterialBlockTruncated raw ptr material_sizes []
         = Inr (material_blocks mats, p)"
  using assms
  by (auto simp: parse_material_block_v1_new_def bindE_Inr_iff read_int_le_Inr_offset) blast

lemma parse_old_Inr_blocks:
  assumes "parse_material_block_v1_old c f = Inr ((mats, vs, fs), f')"
  shows "\<exists>raw ptr p material_sizes f6.
     read_material_sizes (nat (unpack_i32_le (take 4 (drop 24 f)))) (drop 28 f) []
       = Inr (material_sizes, f6)
     \<and> material_blocks_loop OldBlockTruncated raw ptr material_sizes []
         = Inr (material_blocks mats, p)"
  using assms
  by (auto simp: parse_material_block_v1_old_def bindE_Inr_iff read_int_le_Inr_offset) blast

lemma blocks_of_sizes:
  assumes "read_material_sizes (nat m) (drop k f) [] = Inr (material_sizes, f6)"
    and "material_blocks_loop err raw ptr material_sizes [] = Inr (blocks, p)"
  shows "map (\<lambda>b. int (length b)) blocks
     = map (\<lambda>i. max 0 (unpack_i32_le (take 4 (drop (k + 4 * i) f)))) [0..<nat m]"
proof -
  from read_material_sizes_Inr [OF assms(1)]
  have "material_sizes = map (\<lambda>i. unpack_i32_le (take 4 (drop (k + 4 * i) f))) [0..<nat m]"
    by (simp add: add.commute)
  moreover from material_blocks_loop_Inr [OF assms(2)]
  have "map (\<lambda>b. int (length b)) blocks = map (max 0) material_sizes"
    by auto
  ultimately show ?thesis
    by (simp add: comp_def)
qed

lemma read_material_sizes_numeral:
  "read_material_sizes (numeral k) f material_sizes =
     bindE (read_int_le f) (\<lambda>(s, f). read_material_sizes (pred_numeral k) f (material_sizes @ [s]))"
  by (simp add: numeral_eq_Suc)

lemma parse_three_blobs_block:
  "parse_material_block_v1_new example_libs three_blobs_block = Inr (three_blobs, [])"
  by (simp add: three_blobs_block_def two_bytes_cdata_def three_blobs_def no_materials_def
      eval_files read_material_sizes_numeral)

lemma parse_three_blobs_legacy_block:
  "parse_material_block_v1_old example_libs three_blobs_legacy_block
     = Inr ((three_blobs, [], []), [])"
  by (simp add: three_blobs_legacy_block_def two_bytes_cdata_def three_blobs_def
      no_materials_def eval_files read_material_sizes_numeral)

lemma parse_negative_material_count_block:
  "parse_material_block_v1_new example_libs negative_material_count_block
     = Inr (no_materials, [])"
  by (simp add: negative_material_count_block_def no_materials_def eval_files)

subsection \<open>A material block whose header and payload are there\<close>

lemma read_material_sizes_concat:
  "\<forall>s \<in> set szs. length s = 4 \<Longrightarrow>
     read_material_sizes (length szs) (concat szs @ rest) acc
       = Inr (acc @ map unpack_i32_le szs, rest)"
  by (induction szs arbitrary: acc) (simp_all add: read_int_le_append)

lemma parse_material_block_v1_new_fields:
  assumes "length tn = 4" "length un = 4" "length fun_n = 4" "length tin = 4" "length mn = 4"
    and "\<forall>s \<in> set szs. length s = 4" "length szs = nat (unpack_i32_le mn)"
    and "length nl = 4" "length kn = 4" "length cn = 4"
    and "int (length cdata) = unpack_i32_le cn"
  shows "parse_material_block_v1_new c
           (tn @ un @ fun_n @ tin @ mn @ concat szs @ nl @ kn @ cn @ cdata @ r) =
     bindE (zlib_decompress c cdata (Some (unpack_i32_le tn))) (\<lambda>raw.
     bindE (take_array MaterialBlockTruncated raw 0 (unpack_i32_le un) 2) (\<lambda>(uvs_i, ptr).
     bindE (take_array MaterialBlockTruncated raw ptr (unpack_i32_le fun_n) 3) (\<lambda>(face_uvs_i, ptr).
     bindE (take_texture_ids MaterialBlockTruncated raw ptr (unpack_i32_le tin)) (\<lambda>(tids, ptr).
     bindE (material_blocks_loop MaterialBlockTruncated raw ptr (map unpack_i32_le szs) [])
       (\<lambda>(blocks, ptr).
     bindE (take_material_name c MaterialBlockTruncated raw ptr (unpack_i32_le nl))
       (\<lambda>(name, ptr).
     bindE (maps_loop_new raw ptr (nat (max 0 (unpack_i32_le kn))) []) (\<lambda>texs.
       Inr (\<lparr>material_blocks = blocks, material_name = name, textures = texs,
             texture_ids = tids, uvs_internal = uvs_i, face_uvs_internal = face_uvs_i\<rparr>,
            r))))))))"
  using assms(1-5,8-11) read_material_sizes_concat [OF assms(6), of "nl @ kn @ cn @ cdata @ r" "[]"]
  unfolding parse_material_block_v1_new_def
  by (simp add: read_int_le_append read_bytes_append assms(7) [symmetric])


lemma zlib_decompress_mismatch:
  "zlib_lib c buf = Some raw \<Longrightarrow> int (length raw) \<noteq> e \<Longrightarrow>
     zlib_decompress c buf (Some e) = Inl (SizeMismatch (length raw) e)"
  by (simp add: zlib_decompress_def)

subsection \<open>The map loops never raise\<close>






subsection \<open>The example blocks with maps, decoded\<close>

lemma maps_loop_new_numeral:
  "maps_loop_new raw ptr (numeral k) texs =
     (if ptr + 4 > length raw then Inr texs
      else
        let buf_size = unpack_from raw ptr;
            ptr = ptr + 4;
            buf_size = (if buf_size < 0 then 0 else buf_size);
            buf_size = (if int ptr + buf_size > int (length raw)
                        then max 0 (int (length raw) - int ptr) else buf_size)
        in
        bindE (if buf_size \<noteq> 0 then take_chunk MaterialBlockTruncated raw ptr buf_size
               else Inr ([], ptr)) (\<lambda>(buf, ptr).
          maps_loop_new raw ptr (pred_numeral k)
            (texs @ [\<lparr>data = buf, is_png = (take 8 buf = png_signature),
                      size_hint = None\<rparr>])))"
  unfolding numeral_eq_Suc maps_loop_new.simps ..

lemma maps_loop_old_numeral:
  "maps_loop_old c raw ptr (numeral k) texs =
     (if ptr + 8 > length raw then Inr texs
      else
        let width = unpack_from raw ptr;
            ptr = ptr + 4;
            height = unpack_from raw ptr;
            ptr = ptr + 4
        in
        if width \<le> 0 \<or> height \<le> 0 then
          maps_loop_old c raw ptr (pred_numeral k)
            (texs @ [\<lparr>data = [], is_png = False, size_hint = Some (width, height)\<rparr>])
        else
          let byte_count = width * height * 4;
              byte_count = (if int ptr + byte_count > int (length raw)
                            then max 0 (int (length raw) - int ptr) else byte_count)
          in
          bindE (if byte_count > 0 then take_chunk OldBlockTruncated raw ptr byte_count
                 else Inr ([], ptr)) (\<lambda>(rgba, ptr).
            maps_loop_old c raw ptr (pred_numeral k)
              (texs @ [case try_png_bytes_from_rgba c width height rgba of
                         Some png \<Rightarrow>
                           \<lparr>data = png, is_png = True, size_hint = Some (width, height)\<rparr>
                       | None \<Rightarrow>
                           \<lparr>data = rgba, is_png = False, size_hint = Some (width, height)\<rparr>])))"
  unfolding numeral_eq_Suc maps_loop_old.simps ..



lemma maps_loop_new_truncated_maps:
  "maps_loop_new truncated_maps_raw 0 5 [] = Inr truncated_maps_textures"
  by (simp add: truncated_maps_raw_def truncated_maps_textures_def maps_loop_new_numeral
      eval_defs)

lemma maps_loop_old_rgba_maps:
  "maps_loop_old example_libs rgba_maps_raw 0 2 [] = Inr rgba_maps_textures"
  by (simp add: rgba_maps_raw_def rgba_maps_textures_def maps_loop_old_numeral eval_defs)

lemma parse_truncated_maps_block:
  "parse_material_block_v1_new example_libs truncated_maps_block
     = Inr (no_materials\<lparr>textures := truncated_maps_textures\<rparr>, [])"
  by (simp add: truncated_maps_block_def truncated_maps_cdata_def truncated_maps_textures_def
      no_materials_def maps_loop_new_numeral eval_files)

lemma parse_rgba_maps_block:
  "parse_material_block_v1_old example_libs rgba_maps_block
     = Inr ((no_materials\<lparr>textures := rgba_maps_textures\<rparr>, [], []), [])"
  by (simp add: rgba_maps_block_def rgba_maps_cdata_def rgba_maps_textures_def
      no_materials_def maps_loop_old_numeral eval_files)

section \<open>The claims\<close>

subsection \<open>C1: the geometry block\<close>

text \<open>
  C1, as amended. Take a versioned file (header code other than 1) whose geometry block
  is complete: the four header fields, then as many compressed bytes as the header
  declares, which decompress to \<open>raw\<close>. If neither declared count is negative and
  \<open>raw\<close> has exactly \<open>vertCount * 12 + faceCount * 12\<close> bytes, then the geometry block
  decodes, with \<open>vertCount\<close> vertices, \<open>faceCount\<close> faces and that number of uncompressed
  bytes; the whole decode succeeds when fewer than four bytes follow the block; and
  every document the whole decode returns has these counts. If the length of \<open>raw\<close>
  differs from \<open>vertCount * 12 + faceCount * 12\<close>, the whole decode fails with the
  geometry size mismatch, whatever the counts are.
\<close>

theorem C1_geometry_block:
  assumes "length head = 4" "length pad = 12"
    and "length tn = 4" "length vn = 4" "length fn = 4" "length cn = 4"
    and "unpack_i32_le head \<noteq> 1"
    and "unpack_i32_le cn = int (length cdata)"
    and "zlib_lib c cdata = Some raw"
  shows "(0 \<le> unpack_i32_le vn \<and> 0 \<le> unpack_i32_le fn
          \<and> int (length raw) = unpack_i32_le vn * 12 + unpack_i32_le fn * 12 \<longrightarrow>
            (\<exists>vs fs meta.
               parse_mesh_block c (tn @ vn @ fn @ cn @ cdata @ rest) = Inr ((vs, fs, meta), rest)
               \<and> int (length vs) = unpack_i32_le vn \<and> int (length fs) = unpack_i32_le fn
               \<and> meta ''uncompressed_bytes''
                   = Some (unpack_i32_le vn * 12 + unpack_i32_le fn * 12))
          \<and> (length rest < 4 \<longrightarrow>
               (\<exists>m. load_cxbin c (head @ pad @ tn @ vn @ fn @ cn @ cdata @ rest) = Inr m))
          \<and> (\<forall>m. load_cxbin c (head @ pad @ tn @ vn @ fn @ cn @ cdata @ rest) = Inr m \<longrightarrow>
                 int (length (vertices m)) = unpack_i32_le vn
               \<and> int (length (faces m)) = unpack_i32_le fn
               \<and> uncompressed_bytes m
                   = Some (unpack_i32_le vn * 12 + unpack_i32_le fn * 12)))
       \<and> (int (length raw) \<noteq> unpack_i32_le vn * 12 + unpack_i32_le fn * 12 \<longrightarrow>
            load_cxbin c (head @ pad @ tn @ vn @ fn @ cn @ cdata @ rest)
              = Inl (GeometrySizeMismatch (length raw)
                       (unpack_i32_le vn * 12 + unpack_i32_le fn * 12)))"
proof (intro conjI impI)
  assume ok: "0 \<le> unpack_i32_le vn \<and> 0 \<le> unpack_i32_le fn
          \<and> int (length raw) = unpack_i32_le vn * 12 + unpack_i32_le fn * 12"
  note pm = parse_mesh_block_layout [OF assms(3-6) assms(8,9), of rest] 
  from ok pm show "\<exists>vs fs meta.
               parse_mesh_block c (tn @ vn @ fn @ cn @ cdata @ rest) = Inr ((vs, fs, meta), rest)
               \<and> int (length vs) = unpack_i32_le vn \<and> int (length fs) = unpack_i32_le fn
               \<and> meta ''uncompressed_bytes''
                   = Some (unpack_i32_le vn * 12 + unpack_i32_le fn * 12)"
    by (simp add: length_rows)
  show "\<forall>m. load_cxbin c (head @ pad @ tn @ vn @ fn @ cn @ cdata @ rest) = Inr m \<longrightarrow>
                 int (length (vertices m)) = unpack_i32_le vn
               \<and> int (length (faces m)) = unpack_i32_le fn
               \<and> uncompressed_bytes m
                   = Some (unpack_i32_le vn * 12 + unpack_i32_le fn * 12)"
  proof (intro allI impI)
    fix m
    assume "load_cxbin c (head @ pad @ tn @ vn @ fn @ cn @ cdata @ rest) = Inr m"
    from load_after_geometry [OF assms(1,2,7) _ this] ok pm
    show "int (length (vertices m)) = unpack_i32_le vn
               \<and> int (length (faces m)) = unpack_i32_le fn
               \<and> uncompressed_bytes m
                   = Some (unpack_i32_le vn * 12 + unpack_i32_le fn * 12)"
      by (simp add: length_rows)
  qed
  assume "length rest < 4"
  then show "\<exists>m. load_cxbin c (head @ pad @ tn @ vn @ fn @ cn @ cdata @ rest) = Inr m"
    using ok pm
    by (simp add: load_cxbin_versioned [OF assms(1,2,7)] bindE_def read_int_le_short)
next
  assume "int (length raw) \<noteq> unpack_i32_le vn * 12 + unpack_i32_le fn * 12"
  from mesh_block_mismatch [OF assms(3-6) assms(8,9) this, of rest]
  show "load_cxbin c (head @ pad @ tn @ vn @ fn @ cn @ cdata @ rest)
              = Inl (GeometrySizeMismatch (length raw)
                       (unpack_i32_le vn * 12 + unpack_i32_le fn * 12))"
    by (simp add: load_cxbin_versioned [OF assms(1,2,7)] bindE_def)
qed

text \<open>The theorem at \<open>geometry_only_file\<close>, and at the same file with a declared vertex
  count of 2.\<close>

theorem C1_geometry_block_witness:
  "(\<exists>vs fs meta.
      parse_mesh_block example_libs
        (pack_i32_le 24 @ pack_i32_le 1 @ pack_i32_le 1 @ pack_i32_le 35 @ geometry_cdata @ [])
        = Inr ((vs, fs, meta), [])
      \<and> int (length vs) = 1 \<and> int (length fs) = 1
      \<and> meta ''uncompressed_bytes'' = Some 24)
   \<and> (\<exists>m. load_cxbin example_libs
          (pack_i32_le 0 @ replicate 12 0 @ pack_i32_le 24 @ pack_i32_le 1 @ pack_i32_le 1
             @ pack_i32_le 35 @ geometry_cdata @ []) = Inr m)
   \<and> load_cxbin example_libs
        (pack_i32_le 0 @ replicate 12 0 @ pack_i32_le 24 @ pack_i32_le 2 @ pack_i32_le 1
           @ pack_i32_le 35 @ geometry_cdata @ []) = Inl (GeometrySizeMismatch 24 36)"
proof -
  have h: "unpack_i32_le (pack_i32_le 0) \<noteq> 1"
    and v1: "unpack_i32_le (pack_i32_le 1) = 1"
    and v2: "unpack_i32_le (pack_i32_le 2) = 2"
    by (simp_all add: unpack_i32_le_def pack_i32_le_def word_le_def)
  have c: "unpack_i32_le (pack_i32_le 35) = int (length geometry_cdata)"
    by (simp add: unpack_i32_le_def pack_i32_le_def word_le_def geometry_cdata_def)
  have z: "zlib_lib example_libs geometry_cdata = Some geometry_raw"
    by (simp add: example_libs_def inflate_geometry)
  have r: "int (length geometry_raw) = 24"
    by (simp add: geometry_raw_def)
  have ok: "0 \<le> unpack_i32_le (pack_i32_le 1) \<and> 0 \<le> unpack_i32_le (pack_i32_le 1)
      \<and> int (length geometry_raw)
          = unpack_i32_le (pack_i32_le 1) * 12 + unpack_i32_le (pack_i32_le 1) * 12"
    by (simp add: v1 r)
  have bad: "int (length geometry_raw)
      \<noteq> unpack_i32_le (pack_i32_le 2) * 12 + unpack_i32_le (pack_i32_le 1) * 12"
    by (simp add: v1 v2 r)
  have l4: "length (pack_i32_le n) = 4" for n
    by simp
  have l12: "length (replicate 12 (0 :: byte)) = 12"
    by simp
  note a = C1_geometry_block [of "pack_i32_le 0" "replicate 12 0" "pack_i32_le 24"
      "pack_i32_le 1" "pack_i32_le 1" "pack_i32_le 35" geometry_cdata example_libs
      geometry_raw "[]", OF l4 l12 l4 l4 l4 l4 h c z, THEN conjunct1, THEN mp, OF ok]
  note b = C1_geometry_block [of "pack_i32_le 0" "replicate 12 0" "pack_i32_le 24"
      "pack_i32_le 2" "pack_i32_le 1" "pack_i32_le 35" geometry_cdata example_libs
      geometry_raw "[]", OF l4 l12 l4 l4 l4 l4 h c z, THEN conjunct2, THEN mp, OF bad]
  from a have a1: "\<exists>vs fs meta.
      parse_mesh_block example_libs
        (pack_i32_le 24 @ pack_i32_le 1 @ pack_i32_le 1 @ pack_i32_le 35 @ geometry_cdata @ [])
        = Inr ((vs, fs, meta), [])
      \<and> int (length vs) = 1 \<and> int (length fs) = 1
      \<and> meta ''uncompressed_bytes'' = Some 24"
    unfolding v1 by simp
  from a have a2: "\<exists>m. load_cxbin example_libs
          (pack_i32_le 0 @ replicate 12 0 @ pack_i32_le 24 @ pack_i32_le 1 @ pack_i32_le 1
             @ pack_i32_le 35 @ geometry_cdata @ []) = Inr m"
    by simp
  from b have b1: "load_cxbin example_libs
        (pack_i32_le 0 @ replicate 12 0 @ pack_i32_le 24 @ pack_i32_le 2 @ pack_i32_le 1
           @ pack_i32_le 35 @ geometry_cdata @ []) = Inl (GeometrySizeMismatch 24 36)"
    using r unfolding v1 v2 by simp
  from a1 a2 b1 show ?thesis
    by blast
qed

text \<open>The claim as stated fails when a declared count is negative: the payload of
  \<open>negative_count_file\<close> has the length the two counts add up to, and numpy refuses to
  reshape the empty array into one face.\<close>

theorem C1_negative_count_counterexample:
  "zlib_lib example_libs empty_cdata = Some []
   \<and> int (length ([] :: bytes))
       = unpack_i32_le (pack_i32_le (- 1)) * 12 + unpack_i32_le (pack_i32_le 1) * 12
   \<and> negative_count_file
       = versioned_head @ pack_i32_le 0 @ pack_i32_le (- 1) @ pack_i32_le 1
           @ pack_i32_le (int (length empty_cdata)) @ empty_cdata
   \<and> load_cxbin example_libs negative_count_file = Inl NumpyValueError"
  by (simp add: negative_count_file_def empty_cdata_def eval_defs stored_inflate_def
      adler32_def)

subsection \<open>C2: the legacy header code\<close>

text \<open>
  C2, as amended. For every file whose 4-byte header code equals 1, decoding runs the
  legacy combined parser on what follows the 16 header bytes, fails where that parser
  fails, and otherwise returns a document whose \<open>cxbin_version\<close> is 1 and whose size
  counters are absent. The version is not a tag of its own: a versioned file with
  version field 1 that decodes also yields \<open>cxbin_version = 1\<close>. What tells the two
  documents apart is the \<open>compressed_bytes\<close> counter, absent for the legacy file and
  present for the versioned one.
\<close>

theorem C2_legacy_version:
  assumes "length head = 4" "length pad = 12" "unpack_i32_le head = 1"
    and "length head' = 4" "length pad' = 12" "unpack_i32_le head' \<noteq> 1"
  shows "load_cxbin c (head @ pad @ body) =
           (case parse_material_block_v1_old c body of
              Inl e \<Rightarrow> Inl e
            | Inr ((mats, vs, fs), f') \<Rightarrow>
                Inr \<lparr>vertices = vs, faces = fs, uvs = uvs_internal mats,
                     face_uvs = face_uvs_internal mats, materials = Some mats,
                     cxbin_version = Some 1, compressed_bytes = None,
                     uncompressed_bytes = None\<rparr>)
       \<and> (parse_mesh_block c body' = Inr (g, ver @ rest) \<and> length ver = 4
            \<and> unpack_i32_le ver = 1 \<and> load_cxbin c (head' @ pad' @ body') = Inr m' \<longrightarrow>
              cxbin_version m' = Some 1 \<and> compressed_bytes m' \<noteq> None)"
proof (intro conjI impI)
  show "load_cxbin c (head @ pad @ body) =
           (case parse_material_block_v1_old c body of
              Inl e \<Rightarrow> Inl e
            | Inr ((mats, vs, fs), f') \<Rightarrow>
                Inr \<lparr>vertices = vs, faces = fs, uvs = uvs_internal mats,
                     face_uvs = face_uvs_internal mats, materials = Some mats,
                     cxbin_version = Some 1, compressed_bytes = None,
                     uncompressed_bytes = None\<rparr>)"
    unfolding load_cxbin_legacy [OF assms(1-3)]
    by (simp add: bindE_def split: sum.splits prod.splits)
next
  assume a: "parse_mesh_block c body' = Inr (g, ver @ rest) \<and> length ver = 4
    \<and> unpack_i32_le ver = 1 \<and> load_cxbin c (head' @ pad' @ body') = Inr m'"
  obtain vs fs meta where g: "g = (vs, fs, meta)"
    by (cases g) auto
  from a have p: "parse_mesh_block c body' = Inr ((vs, fs, meta), ver @ rest)"
    by (simp add: g)
  from parse_mesh_block_Inr_layout [OF p] have "meta ''compressed_bytes'' \<noteq> None"
    by auto
  moreover from load_after_geometry [OF assms(4-6) p] a
  have "compressed_bytes m' = meta ''compressed_bytes''"
    by simp
  ultimately show "compressed_bytes m' \<noteq> None"
    by simp
  from a show "cxbin_version m' = Some 1"
    unfolding load_cxbin_versioned [OF assms(4-6)] p
    by (auto simp: read_int_le_append bindE_Inr_iff)
qed

text \<open>The theorem at \<open>legacy_file\<close> and \<open>version1_file\<close>.\<close>

theorem C2_legacy_version_witness:
  "load_cxbin example_libs
     (pack_i32_le 1 @ replicate 12 0 @ pack_i32_le 24 @ pack_i32_le 1 @ pack_i32_le 1
        @ pack_i32_le 0 @ pack_i32_le 0 @ pack_i32_le 0 @ pack_i32_le 0 @ pack_i32_le 0
        @ pack_i32_le 0 @ pack_i32_le 35 @ geometry_cdata)
     = Inr \<lparr>vertices = [[0x3F800000, 0x40000000, 0x40400000]], faces = [[0, 0, 0]],
            uvs = None, face_uvs = None, materials = Some no_materials,
            cxbin_version = Some 1, compressed_bytes = None, uncompressed_bytes = None\<rparr>
   \<and> load_cxbin example_libs version1_file
       = Inr (geometry_only_mesh\<lparr>materials := Some no_materials, cxbin_version := Some 1\<rparr>)
   \<and> cxbin_version
       (geometry_only_mesh\<lparr>materials := Some no_materials, cxbin_version := Some 1\<rparr>)
       = Some 1
   \<and> compressed_bytes
       (geometry_only_mesh\<lparr>materials := Some no_materials, cxbin_version := Some 1\<rparr>)
       \<noteq> None"
proof -
  have h1: "unpack_i32_le (pack_i32_le 1) = 1" and h0: "unpack_i32_le (pack_i32_le 0) \<noteq> 1"
    by (simp_all add: unpack_i32_le_def pack_i32_le_def word_le_def)
  have l4: "length (pack_i32_le n) = 4" for n
    by simp
  have l12: "length (replicate 12 (0 :: byte)) = 12"
    by simp
  have o: "parse_material_block_v1_old example_libs
      (pack_i32_le 24 @ pack_i32_le 1 @ pack_i32_le 1
        @ pack_i32_le 0 @ pack_i32_le 0 @ pack_i32_le 0 @ pack_i32_le 0 @ pack_i32_le 0
        @ pack_i32_le 0 @ pack_i32_le 35 @ geometry_cdata)
      = Inr ((no_materials, [[0x3F800000, 0x40000000, 0x40400000]], [[0, 0, 0]]), [])"
    by (simp add: eval_files no_materials_def)
  have p: "parse_mesh_block example_libs
     ((pack_i32_le 24 @ pack_i32_le 1 @ pack_i32_le 1 @ pack_i32_le 35 @ geometry_cdata)
        @ pack_i32_le 1 @ empty_material_block)
     = Inr (([[0x3F800000, 0x40000000, 0x40400000]], [[0, 0, 0]],
             [''compressed_bytes'' \<mapsto> 35, ''uncompressed_bytes'' \<mapsto> 24]),
            pack_i32_le 1 @ empty_material_block)"
    by (simp add: eval_files)
  have f: "version1_file = pack_i32_le 0 @ replicate 12 0
      @ ((pack_i32_le 24 @ pack_i32_le 1 @ pack_i32_le 1 @ pack_i32_le 35 @ geometry_cdata)
        @ pack_i32_le 1 @ empty_material_block)"
    by (simp add: version1_file_def geometry_only_file_def versioned_head_def)
  note t = C2_legacy_version [OF l4 l12 h1 l4 l12 h0, of example_libs]
  from t [THEN conjunct1] have a: "load_cxbin example_libs
     (pack_i32_le 1 @ replicate 12 0 @ pack_i32_le 24 @ pack_i32_le 1 @ pack_i32_le 1
        @ pack_i32_le 0 @ pack_i32_le 0 @ pack_i32_le 0 @ pack_i32_le 0 @ pack_i32_le 0
        @ pack_i32_le 0 @ pack_i32_le 35 @ geometry_cdata)
     = Inr \<lparr>vertices = [[0x3F800000, 0x40000000, 0x40400000]], faces = [[0, 0, 0]],
            uvs = None, face_uvs = None, materials = Some no_materials,
            cxbin_version = Some 1, compressed_bytes = None, uncompressed_bytes = None\<rparr>"
    by (simp add: o) (simp add: no_materials_def)
  from t [THEN conjunct2, THEN mp, OF conjI [OF p conjI [OF l4 conjI [OF h1]]]]
    load_version1_file
  have b: "cxbin_version
       (geometry_only_mesh\<lparr>materials := Some no_materials, cxbin_version := Some 1\<rparr>)
       = Some 1
   \<and> compressed_bytes
       (geometry_only_mesh\<lparr>materials := Some no_materials, cxbin_version := Some 1\<rparr>)
       \<noteq> None"
    unfolding f by blast
  from a b load_version1_file show ?thesis
    by blast
qed

text \<open>The claim as stated fails: the legacy file and the versioned file with version
  field 1 decode to documents with the same version, 1.\<close>

theorem C2_same_version_counterexample:
  "unpack_i32_le (take 4 legacy_file) = 1
   \<and> unpack_i32_le (take 4 version1_file) = 0
   \<and> version1_file = geometry_only_file @ pack_i32_le 1 @ empty_material_block
   \<and> load_cxbin example_libs legacy_file =
       Inr (geometry_only_mesh\<lparr>materials := Some no_materials, cxbin_version := Some 1,
              compressed_bytes := None, uncompressed_bytes := None\<rparr>)
   \<and> load_cxbin example_libs version1_file =
       Inr (geometry_only_mesh\<lparr>materials := Some no_materials, cxbin_version := Some 1\<rparr>)"
  by (simp add: load_legacy_file load_version1_file)
     (simp add: legacy_file_def version1_file_def geometry_only_file_def versioned_head_def
        legacy_head_def unpack_i32_le_def pack_i32_le_def word_le_def)

subsection \<open>C3: a version field of 0\<close>

text \<open>
  C3, as amended. Take a versioned file that ends after its geometry block, and the
  same file with a version field of 0 appended (and anything after it). When the
  geometry block decodes, both files decode, both documents have no materials, no UVs
  and no face UVs and agree on the vertices, the faces and the size counters, and they
  differ in the version only: \<open>cxbin_version\<close> is \<open>None\<close> for the file without a version
  field and 0 for the file with it.
\<close>

theorem C3_version_zero:
  assumes "length head = 4" "length pad = 12" "unpack_i32_le head \<noteq> 1"
    and "parse_mesh_block c body = Inr (g, [])"
    and "length ver = 4" "unpack_i32_le ver = 0"
  shows "\<exists>m. load_cxbin c (head @ pad @ body) = Inr m
     \<and> load_cxbin c (head @ pad @ body @ ver @ rest) = Inr (m\<lparr>cxbin_version := Some 0\<rparr>)
     \<and> cxbin_version m = None \<and> materials m = None \<and> uvs m = None \<and> face_uvs m = None"
proof -
  obtain vs fs meta where g: "g = (vs, fs, meta)"
    by (cases g) auto
  have p: "parse_mesh_block c (body @ ver @ rest) = Inr ((vs, fs, meta), ver @ rest)"
    using parse_mesh_block_frame [OF assms(4), of "ver @ rest"] by (simp add: g)
  have a: "load_cxbin c (head @ pad @ body) =
     Inr \<lparr>vertices = vs, faces = fs, uvs = None, face_uvs = None, materials = None,
          cxbin_version = None, compressed_bytes = meta ''compressed_bytes'',
          uncompressed_bytes = meta ''uncompressed_bytes''\<rparr>"
    using assms(4)
    by (simp add: load_cxbin_versioned [OF assms(1-3)] read_int_le_short g)
  have b: "load_cxbin c (head @ pad @ body @ ver @ rest) =
     Inr \<lparr>vertices = vs, faces = fs, uvs = None, face_uvs = None, materials = None,
          cxbin_version = Some 0, compressed_bytes = meta ''compressed_bytes'',
          uncompressed_bytes = meta ''uncompressed_bytes''\<rparr>"
    using assms(5,6)
    by (simp add: load_cxbin_versioned [OF assms(1-3)] p read_int_le_append)
  from a b show ?thesis
    by simp
qed

text \<open>The theorem at \<open>geometry_only_file\<close> and \<open>version0_file\<close>.\<close>

theorem C3_version_zero_witness:
  "\<exists>m. load_cxbin example_libs
          (pack_i32_le 0 @ replicate 12 0
             @ pack_i32_le 24 @ pack_i32_le 1 @ pack_i32_le 1 @ pack_i32_le 35 @ geometry_cdata)
         = Inr m
     \<and> load_cxbin example_libs
          (pack_i32_le 0 @ replicate 12 0
             @ (pack_i32_le 24 @ pack_i32_le 1 @ pack_i32_le 1 @ pack_i32_le 35 @ geometry_cdata)
             @ pack_i32_le 0 @ [])
         = Inr (m\<lparr>cxbin_version := Some 0\<rparr>)
     \<and> cxbin_version m = None \<and> materials m = None \<and> uvs m = None \<and> face_uvs m = None"
proof -
  have h: "unpack_i32_le (pack_i32_le 0) \<noteq> 1" and v: "unpack_i32_le (pack_i32_le 0) = 0"
    by (simp_all add: unpack_i32_le_def pack_i32_le_def word_le_def)
  have l4: "length (pack_i32_le n) = 4" for n
    by simp
  have l12: "length (replicate 12 (0 :: byte)) = 12"
    by simp
  have p: "parse_mesh_block example_libs
     (pack_i32_le 24 @ pack_i32_le 1 @ pack_i32_le 1 @ pack_i32_le 35 @ geometry_cdata)
     = Inr (([[0x3F800000, 0x40000000, 0x40400000]], [[0, 0, 0]],
             [''compressed_bytes'' \<mapsto> 35, ''uncompressed_bytes'' \<mapsto> 24]), [])"
    by (simp add: eval_files)
  from C3_version_zero [OF l4 l12 h p l4 v, of "[]"] show ?thesis
    by simp
qed

text \<open>The claim as stated fails: the two documents are not identical. The file with
  the version field 0 decodes to a document whose version is 0, the file without it to
  a document that has none.\<close>

theorem C3_not_identical_counterexample:
  "version0_file = geometry_only_file @ pack_i32_le 0
   \<and> unpack_i32_le (pack_i32_le 0) = 0
   \<and> load_cxbin example_libs version0_file
       = Inr (geometry_only_mesh\<lparr>cxbin_version := Some 0\<rparr>)
   \<and> load_cxbin example_libs geometry_only_file = Inr geometry_only_mesh
   \<and> cxbin_version geometry_only_mesh = None
   \<and> load_cxbin example_libs version0_file \<noteq> load_cxbin example_libs geometry_only_file"
  by (simp add: load_version0_file load_geometry_only_file)
     (simp add: version0_file_def geometry_only_mesh_def unpack_i32_le_def pack_i32_le_def
        word_le_def)

subsection \<open>C4: the compressed-bytes counter\<close>

text \<open>
  C4, as amended. For every versioned file (header code other than 1) that decodes
  successfully, the \<open>compressed_bytes\<close> counter of the document equals the declared
  compressed-length field read from the header of the geometry block, which is the
  integer at bytes 28 to 31 of the file. For every legacy file (header code 1) that decodes
  successfully, the document has no such counter: \<open>compressed_bytes\<close> is \<open>None\<close>.
\<close>

theorem C4_compressed_bytes:
  assumes "load_cxbin c f = Inr m"
  shows "(unpack_i32_le (take 4 f) \<noteq> 1 \<longrightarrow>
            compressed_bytes m = Some (unpack_i32_le (take 4 (drop 28 f))))
       \<and> (unpack_i32_le (take 4 f) = 1 \<longrightarrow> compressed_bytes m = None)"
proof -
  from load_cxbin_Inr_layout [OF assms] obtain head pad body where
    f: "f = head @ pad @ body" and l: "length head = 4" "length pad = 12"
    by blast
  have h: "take 4 f = head"
    by (simp add: f l)
  show ?thesis
  proof (intro conjI impI)
    assume "unpack_i32_le (take 4 f) \<noteq> 1"
    then have n: "unpack_i32_le head \<noteq> 1"
      by (simp add: h)
    from assms have "\<exists>x. parse_mesh_block c body = Inr x"
      unfolding f load_cxbin_versioned [OF l n]
      by (cases "parse_mesh_block c body") simp_all
    then obtain vs fs meta f' where p: "parse_mesh_block c body = Inr ((vs, fs, meta), f')"
      by (metis surj_pair)
    from load_after_geometry [OF l n p] assms
    have c: "compressed_bytes m = meta ''compressed_bytes''"
      by (simp add: f)
    from parse_mesh_block_Inr_layout [OF p] obtain tn vn fn cn cdata where
      b: "body = tn @ vn @ fn @ cn @ cdata @ f'" "length tn = 4" "length vn = 4"
      "length fn = 4" "length cn = 4" "meta ''compressed_bytes'' = Some (unpack_i32_le cn)"
      by auto
    have "take 4 (drop 28 f) = cn"
      by (simp add: f b l)
    with c b(6) show "compressed_bytes m = Some (unpack_i32_le (take 4 (drop 28 f)))"
      by simp
  next
    assume "unpack_i32_le (take 4 f) = 1"
    then have n: "unpack_i32_le head = 1"
      by (simp add: h)
    from assms show "compressed_bytes m = None"
      unfolding f load_cxbin_legacy [OF l n]
      by (auto simp: bindE_Inr_iff)
  qed
qed

text \<open>The theorem at \<open>geometry_only_file\<close>, whose header declares 35 compressed bytes, and
  at \<open>legacy_file\<close>.\<close>

theorem C4_compressed_bytes_witness:
  "unpack_i32_le (take 4 geometry_only_file) = 0
   \<and> unpack_i32_le (take 4 (drop 28 geometry_only_file)) = 35
   \<and> load_cxbin example_libs geometry_only_file = Inr geometry_only_mesh
   \<and> compressed_bytes geometry_only_mesh = Some 35
   \<and> unpack_i32_le (take 4 legacy_file) = 1
   \<and> compressed_bytes
       (geometry_only_mesh\<lparr>materials := Some no_materials, cxbin_version := Some 1,
          compressed_bytes := None, uncompressed_bytes := None\<rparr>) = None"
proof -
  have h0: "unpack_i32_le (take 4 geometry_only_file) = 0"
    and h1: "unpack_i32_le (take 4 legacy_file) = 1"
    and c: "unpack_i32_le (take 4 (drop 28 geometry_only_file)) = 35"
    by (simp_all add: geometry_only_file_def legacy_file_def versioned_head_def
        legacy_head_def unpack_i32_le_def pack_i32_le_def word_le_def)
  have n: "unpack_i32_le (take 4 geometry_only_file) \<noteq> 1"
    by (simp add: h0)
  from C4_compressed_bytes [OF load_geometry_only_file, THEN conjunct1, THEN mp, OF n]
    C4_compressed_bytes [OF load_legacy_file, THEN conjunct2, THEN mp, OF h1]
    h0 h1 c load_geometry_only_file
  show ?thesis
    by simp
qed

text \<open>The claim as stated fails for legacy files: \<open>legacy_file\<close> decodes, its header
  declares 35 compressed bytes, and the document reports no counter.\<close>

theorem C4_legacy_counterexample:
  "legacy_file =
     legacy_head @ pack_i32_le 24 @ pack_i32_le 1 @ pack_i32_le 1 @ pack_i32_le 0
       @ pack_i32_le 0 @ pack_i32_le 0 @ pack_i32_le 0 @ pack_i32_le 0 @ pack_i32_le 0
       @ pack_i32_le (int (length geometry_cdata)) @ geometry_cdata
   \<and> int (length geometry_cdata) = 35
   \<and> load_cxbin example_libs legacy_file =
       Inr \<lparr>vertices = [[0x3F800000, 0x40000000, 0x40400000]], faces = [[0, 0, 0]],
            uvs = None, face_uvs = None, materials = Some no_materials,
            cxbin_version = Some 1, compressed_bytes = None, uncompressed_bytes = None\<rparr>"
  by (simp add: load_legacy_file geometry_only_mesh_def)
     (simp add: legacy_file_def geometry_cdata_def)

subsection \<open>C5: truncated texture maps in the new material block\<close>



subsection \<open>C6: PNG encoding in the legacy block\<close>



subsection \<open>C7: a file that ends after its geometry block\<close>

text \<open>
  C7. For every versioned file (header code other than 1) whose geometry block decodes
  and whose byte stream ends right after that block, the decode succeeds: the document
  has the block's vertices and faces, the block's size counters, no version
  (\<open>cxbin_version\<close> is \<open>None\<close>, the tag \<open>none\<close>), and neither materials nor UVs nor
  face UVs.
\<close>

theorem C7_geometry_only:
  assumes "length head = 4" "length pad = 12" "unpack_i32_le head \<noteq> 1"
    and "parse_mesh_block c body = Inr ((vs, fs, meta), [])"
  shows "load_cxbin c (head @ pad @ body) =
     Inr \<lparr>vertices = vs, faces = fs, uvs = None, face_uvs = None, materials = None,
          cxbin_version = None, compressed_bytes = meta ''compressed_bytes'',
          uncompressed_bytes = meta ''uncompressed_bytes''\<rparr>"
  using assms(4)
  by (simp add: load_cxbin_versioned [OF assms(1-3)] read_int_le_short)

text \<open>The theorem at \<open>geometry_only_file\<close>.\<close>

theorem C7_geometry_only_witness:
  "parse_mesh_block example_libs
     (pack_i32_le 24 @ pack_i32_le 1 @ pack_i32_le 1 @ pack_i32_le 35 @ geometry_cdata)
     = Inr (([[0x3F800000, 0x40000000, 0x40400000]], [[0, 0, 0]],
             [''compressed_bytes'' \<mapsto> 35, ''uncompressed_bytes'' \<mapsto> 24]), [])
   \<and> load_cxbin example_libs
        (pack_i32_le 0 @ replicate 12 0
           @ pack_i32_le 24 @ pack_i32_le 1 @ pack_i32_le 1 @ pack_i32_le 35 @ geometry_cdata)
       = Inr \<lparr>vertices = [[0x3F800000, 0x40000000, 0x40400000]], faces = [[0, 0, 0]],
              uvs = None, face_uvs = None, materials = None, cxbin_version = None,
              compressed_bytes = Some 35, uncompressed_bytes = Some 24\<rparr>"
proof -
  have h: "unpack_i32_le (pack_i32_le 0) \<noteq> 1"
    by (simp add: unpack_i32_le_def pack_i32_le_def word_le_def)
  have l4: "length (pack_i32_le 0) = 4"
    by simp
  have l12: "length (replicate 12 (0 :: byte)) = 12"
    by simp
  have p: "parse_mesh_block example_libs
     (pack_i32_le 24 @ pack_i32_le 1 @ pack_i32_le 1 @ pack_i32_le 35 @ geometry_cdata)
     = Inr (([[0x3F800000, 0x40000000, 0x40400000]], [[0, 0, 0]],
             [''compressed_bytes'' \<mapsto> 35, ''uncompressed_bytes'' \<mapsto> 24]), [])"
    by (simp add: eval_files)
  from p C7_geometry_only [OF l4 l12 h p] show ?thesis
    by simp
qed

subsection \<open>C8: the expected decompressed length\<close>

text \<open>
  C8. When the compressed-block decoder is given an expected length and the payload
  decompresses to another length, it fails with the size mismatch that carries the
  length it got and the length it expected. The new material parser decompresses its
  payload with the declared total size \<open>T\<close>, the first field of its header, as the
  expected length: for every material block whose header and compressed payload are
  complete, a payload that decompresses to a length other than \<open>T\<close> makes the parser
  fail with that size mismatch, and the failure aborts the decode of every versioned
  file that holds the block after a version field of 1.
\<close>

theorem C8_size_mismatch:
  assumes "length tn = 4" "length un = 4" "length fun_n = 4" "length tin = 4" "length mn = 4"
    and "\<forall>s \<in> set szs. length s = 4" "length szs = nat (unpack_i32_le mn)"
    and "length nl = 4" "length kn = 4" "length cn = 4"
    and "int (length cdata) = unpack_i32_le cn"
    and "zlib_lib c cdata = Some raw" "int (length raw) \<noteq> unpack_i32_le tn"
  shows "(zlib_lib c buf = Some raw' \<and> int (length raw') \<noteq> e \<longrightarrow>
            zlib_decompress c buf (Some e) = Inl (SizeMismatch (length raw') e))
       \<and> parse_material_block_v1_new c
             (tn @ un @ fun_n @ tin @ mn @ concat szs @ nl @ kn @ cn @ cdata @ r)
           = Inl (SizeMismatch (length raw) (unpack_i32_le tn))
       \<and> (length head = 4 \<and> length pad = 12 \<and> unpack_i32_le head \<noteq> 1
            \<and> parse_mesh_block c body
                = Inr (g, ver @ tn @ un @ fun_n @ tin @ mn @ concat szs @ nl @ kn @ cn @ cdata @ r)
            \<and> length ver = 4 \<and> unpack_i32_le ver = 1 \<longrightarrow>
              load_cxbin c (head @ pad @ body)
                = Inl (SizeMismatch (length raw) (unpack_i32_le tn)))"
proof (intro conjI impI)
  assume "zlib_lib c buf = Some raw' \<and> int (length raw') \<noteq> e"
  then show "zlib_decompress c buf (Some e) = Inl (SizeMismatch (length raw') e)"
    by (simp add: zlib_decompress_mismatch)
next
  show p: "parse_material_block_v1_new c
             (tn @ un @ fun_n @ tin @ mn @ concat szs @ nl @ kn @ cn @ cdata @ r)
           = Inl (SizeMismatch (length raw) (unpack_i32_le tn))"
    unfolding parse_material_block_v1_new_fields [OF assms(1-11)]
    by (simp add: zlib_decompress_mismatch [OF assms(12,13)])
  assume a: "length head = 4 \<and> length pad = 12 \<and> unpack_i32_le head \<noteq> 1
            \<and> parse_mesh_block c body
                = Inr (g, ver @ tn @ un @ fun_n @ tin @ mn @ concat szs @ nl @ kn @ cn @ cdata @ r)
            \<and> length ver = 4 \<and> unpack_i32_le ver = 1"
  obtain vs fs meta where g: "g = (vs, fs, meta)"
    by (cases g) auto
  from a have h: "length head = 4" "length pad = 12" "unpack_i32_le head \<noteq> 1"
    by simp_all
  from a show "load_cxbin c (head @ pad @ body)
                = Inl (SizeMismatch (length raw) (unpack_i32_le tn))"
    unfolding load_cxbin_versioned [OF h]
    by (simp add: g read_int_le_append p)
qed

text \<open>The theorem at \<open>geometry_only_file\<close> followed by the version field 1 and a material
  block that declares a total size of 5 over the empty payload.\<close>

theorem C8_size_mismatch_witness:
  "zlib_decompress example_libs empty_cdata (Some 5) = Inl (SizeMismatch 0 5)
   \<and> parse_material_block_v1_new example_libs
        (pack_i32_le 5 @ pack_i32_le 0 @ pack_i32_le 0 @ pack_i32_le 0 @ pack_i32_le 0
           @ concat [] @ pack_i32_le 0 @ pack_i32_le 0 @ pack_i32_le 11 @ empty_cdata @ [])
       = Inl (SizeMismatch 0 5)
   \<and> load_cxbin example_libs
        (pack_i32_le 0 @ replicate 12 0
           @ (pack_i32_le 24 @ pack_i32_le 1 @ pack_i32_le 1 @ pack_i32_le 35 @ geometry_cdata)
           @ pack_i32_le 1
           @ pack_i32_le 5 @ pack_i32_le 0 @ pack_i32_le 0 @ pack_i32_le 0 @ pack_i32_le 0
           @ concat [] @ pack_i32_le 0 @ pack_i32_le 0 @ pack_i32_le 11 @ empty_cdata @ [])
       = Inl (SizeMismatch 0 5)"
proof -
  have u: "unpack_i32_le (pack_i32_le 0) = 0" "unpack_i32_le (pack_i32_le 1) = 1"
    "unpack_i32_le (pack_i32_le 5) = 5" "unpack_i32_le (pack_i32_le 11) = 11"
    by (simp_all add: unpack_i32_le_def pack_i32_le_def word_le_def)
  have l4: "length (pack_i32_le n) = 4" for n
    by simp
  have l12: "length (replicate 12 (0 :: byte)) = 12"
    by simp
  have s: "\<forall>s \<in> set ([] :: bytes list). length s = 4"
    "length ([] :: bytes list) = nat (unpack_i32_le (pack_i32_le 0))"
    by (simp_all add: u)
  have c: "int (length empty_cdata) = unpack_i32_le (pack_i32_le 11)"
    by (simp add: u empty_cdata_def)
  have z: "zlib_lib example_libs empty_cdata = Some []"
    by (simp add: example_libs_def inflate_empty)
  have n: "int (length ([] :: bytes)) \<noteq> unpack_i32_le (pack_i32_le 5)"
    by (simp add: u)
  have h: "unpack_i32_le (pack_i32_le 0) \<noteq> 1"
    by (simp add: u)
  have p: "parse_mesh_block example_libs
     ((pack_i32_le 24 @ pack_i32_le 1 @ pack_i32_le 1 @ pack_i32_le 35 @ geometry_cdata)
        @ pack_i32_le 1
        @ pack_i32_le 5 @ pack_i32_le 0 @ pack_i32_le 0 @ pack_i32_le 0 @ pack_i32_le 0
        @ concat [] @ pack_i32_le 0 @ pack_i32_le 0 @ pack_i32_le 11 @ empty_cdata @ [])
     = Inr (([[0x3F800000, 0x40000000, 0x40400000]], [[0, 0, 0]],
             [''compressed_bytes'' \<mapsto> 35, ''uncompressed_bytes'' \<mapsto> 24]),
            pack_i32_le 1
        @ pack_i32_le 5 @ pack_i32_le 0 @ pack_i32_le 0 @ pack_i32_le 0 @ pack_i32_le 0
        @ concat [] @ pack_i32_le 0 @ pack_i32_le 0 @ pack_i32_le 11 @ empty_cdata @ [])"
    using parse_mesh_block_frame [of example_libs
        "pack_i32_le 24 @ pack_i32_le 1 @ pack_i32_le 1 @ pack_i32_le 35 @ geometry_cdata"
        _ "[]"]
    by (simp add: eval_files)
  note t = C8_size_mismatch [OF l4 l4 l4 l4 l4 s l4 l4 l4 c z n,
      where buf = empty_cdata and raw' = "[]" and e = 5 and r = "[]"]
  from t [THEN conjunct1] z
  have a: "zlib_decompress example_libs empty_cdata (Some 5) = Inl (SizeMismatch 0 5)"
    by simp
  from t [THEN conjunct2, THEN conjunct1]
  have b: "parse_material_block_v1_new example_libs
        (pack_i32_le 5 @ pack_i32_le 0 @ pack_i32_le 0 @ pack_i32_le 0 @ pack_i32_le 0
           @ concat [] @ pack_i32_le 0 @ pack_i32_le 0 @ pack_i32_le 11 @ empty_cdata @ [])
       = Inl (SizeMismatch 0 5)"
    by (simp add: u)
  from t [THEN conjunct2, THEN conjunct2, THEN mp,
      OF conjI [OF l4 conjI [OF l12 conjI [OF h conjI [OF p conjI [OF l4 u(2)]]]]]]
  have d: "load_cxbin example_libs
        (pack_i32_le 0 @ replicate 12 0
           @ (pack_i32_le 24 @ pack_i32_le 1 @ pack_i32_le 1 @ pack_i32_le 35 @ geometry_cdata)
           @ pack_i32_le 1
           @ pack_i32_le 5 @ pack_i32_le 0 @ pack_i32_le 0 @ pack_i32_le 0 @ pack_i32_le 0
           @ concat [] @ pack_i32_le 0 @ pack_i32_le 0 @ pack_i32_le 11 @ empty_cdata @ [])
       = Inl (SizeMismatch 0 5)"
    by (simp add: u)
  from a b d show ?thesis
    by blast
qed

subsection \<open>C9: a version field other than 1\<close>

text \<open>
  C9. For every versioned file whose geometry block decodes and is followed by a
  version field \<open>v\<close> other than 1 (0 and unknown values alike), the decode succeeds, the
  document's \<open>cxbin_version\<close> is the value \<open>v\<close> as read from the stream, and no material
  block is parsed: materials, UVs and face UVs are absent, whatever follows the version
  field.
\<close>

theorem C9_version_surfaced:
  assumes "length head = 4" "length pad = 12" "unpack_i32_le head \<noteq> 1"
    and "parse_mesh_block c body = Inr ((vs, fs, meta), ver @ rest)"
    and "length ver = 4" "unpack_i32_le ver \<noteq> 1"
  shows "load_cxbin c (head @ pad @ body) =
     Inr \<lparr>vertices = vs, faces = fs, uvs = None, face_uvs = None, materials = None,
          cxbin_version = Some (unpack_i32_le ver),
          compressed_bytes = meta ''compressed_bytes'',
          uncompressed_bytes = meta ''uncompressed_bytes''\<rparr>"
  using assms(4-6)
  by (simp add: load_cxbin_versioned [OF assms(1-3)] read_int_le_append)

text \<open>The theorem at \<open>version7_file\<close>, whose version field holds 7.\<close>

theorem C9_version_surfaced_witness:
  "unpack_i32_le (pack_i32_le 7) = 7
   \<and> load_cxbin example_libs
        (pack_i32_le 0 @ replicate 12 0
           @ pack_i32_le 24 @ pack_i32_le 1 @ pack_i32_le 1 @ pack_i32_le 35 @ geometry_cdata
           @ pack_i32_le 7 @ [])
       = Inr \<lparr>vertices = [[0x3F800000, 0x40000000, 0x40400000]], faces = [[0, 0, 0]],
              uvs = None, face_uvs = None, materials = None, cxbin_version = Some 7,
              compressed_bytes = Some 35, uncompressed_bytes = Some 24\<rparr>"
proof -
  have h: "unpack_i32_le (pack_i32_le 0) \<noteq> 1" and v: "unpack_i32_le (pack_i32_le 7) = 7"
    by (simp_all add: unpack_i32_le_def pack_i32_le_def word_le_def)
  have v1: "unpack_i32_le (pack_i32_le 7) \<noteq> 1"
    by (simp add: v)
  have l4: "length (pack_i32_le n) = 4" for n
    by simp
  have l12: "length (replicate 12 (0 :: byte)) = 12"
    by simp
  have p: "parse_mesh_block example_libs
     ((pack_i32_le 24 @ pack_i32_le 1 @ pack_i32_le 1 @ pack_i32_le 35 @ geometry_cdata)
        @ pack_i32_le 7 @ [])
     = Inr (([[0x3F800000, 0x40000000, 0x40400000]], [[0, 0, 0]],
             [''compressed_bytes'' \<mapsto> 35, ''uncompressed_bytes'' \<mapsto> 24]),
            pack_i32_le 7 @ [])"
    by (simp add: eval_files)
  from v C9_version_surfaced [OF l4 l12 h p l4 v1] show ?thesis
    by simp
qed

subsection \<open>C10: material blobs of declared size zero or less\<close>

text \<open>
  C10, as amended. In both material parsers, a declared per-material size that is zero
  or negative yields the empty blob at that position and raises no error: the loop goes
  on to the next size with the cursor where it was. Whenever the blob-reading loop
  completes, it has appended one blob per declared size, and the blob for a size \<open>s\<close>
  has \<open>max 0 s\<close> bytes. Consequently, whenever a material block parses, the number of
  blobs is the declared material count when that count is not negative and 0 when it
  is negative, that is \<open>max 0 count\<close>, and blob \<open>i\<close> has \<open>max 0\<close> of the \<open>i\<close>-th declared
  size bytes. The count is the integer at offset 16 of a new block and at offset 24 of
  a legacy block; the sizes follow it.
\<close>

theorem C10_material_blobs:
  "(sz \<le> 0 \<longrightarrow>
      material_blocks_loop err raw ptr (sz # sizes) blocks
        = material_blocks_loop err raw ptr sizes (blocks @ [[]]))
   \<and> (material_blocks_loop err raw ptr sizes [] = Inr (bs, p) \<longrightarrow>
        length bs = length sizes \<and> map (\<lambda>b. int (length b)) bs = map (max 0) sizes)
   \<and> (parse_material_block_v1_new c f = Inr (mats, f') \<longrightarrow>
        int (length (material_blocks mats)) = max 0 (unpack_i32_le (take 4 (drop 16 f)))
        \<and> map (\<lambda>b. int (length b)) (material_blocks mats)
            = map (\<lambda>i. max 0 (unpack_i32_le (take 4 (drop (20 + 4 * i) f))))
                [0..<nat (unpack_i32_le (take 4 (drop 16 f)))])
   \<and> (parse_material_block_v1_old c g = Inr ((mats', vs, fs), g') \<longrightarrow>
        int (length (material_blocks mats')) = max 0 (unpack_i32_le (take 4 (drop 24 g)))
        \<and> map (\<lambda>b. int (length b)) (material_blocks mats')
            = map (\<lambda>i. max 0 (unpack_i32_le (take 4 (drop (28 + 4 * i) g))))
                [0..<nat (unpack_i32_le (take 4 (drop 24 g)))])"
proof (intro conjI impI)
  assume "sz \<le> 0"
  then show "material_blocks_loop err raw ptr (sz # sizes) blocks
        = material_blocks_loop err raw ptr sizes (blocks @ [[]])"
    by simp
next
  assume "material_blocks_loop err raw ptr sizes [] = Inr (bs, p)"
  from material_blocks_loop_Inr [OF this]
  show m: "map (\<lambda>b. int (length b)) bs = map (max 0) sizes"
    by simp
  from arg_cong [OF m, of length] show "length bs = length sizes"
    by simp
next
  assume "parse_material_block_v1_new c f = Inr (mats, f')"
  from parse_new_Inr_blocks [OF this] obtain raw ptr p material_sizes f6 where
    "read_material_sizes (nat (unpack_i32_le (take 4 (drop 16 f)))) (drop 20 f) []
       = Inr (material_sizes, f6)"
    "material_blocks_loop MaterialBlockTruncated raw ptr material_sizes []
       = Inr (material_blocks mats, p)"
    by blast
  from blocks_of_sizes [OF this]
  show m: "map (\<lambda>b. int (length b)) (material_blocks mats)
            = map (\<lambda>i. max 0 (unpack_i32_le (take 4 (drop (20 + 4 * i) f))))
                [0..<nat (unpack_i32_le (take 4 (drop 16 f)))]" .
  from arg_cong [OF m, of length]
  show "int (length (material_blocks mats)) = max 0 (unpack_i32_le (take 4 (drop 16 f)))"
    by simp
next
  assume "parse_material_block_v1_old c g = Inr ((mats', vs, fs), g')"
  from parse_old_Inr_blocks [OF this] obtain raw ptr p material_sizes f6 where
    "read_material_sizes (nat (unpack_i32_le (take 4 (drop 24 g)))) (drop 28 g) []
       = Inr (material_sizes, f6)"
    "material_blocks_loop OldBlockTruncated raw ptr material_sizes []
       = Inr (material_blocks mats', p)"
    by blast
  from blocks_of_sizes [OF this]
  show m: "map (\<lambda>b. int (length b)) (material_blocks mats')
            = map (\<lambda>i. max 0 (unpack_i32_le (take 4 (drop (28 + 4 * i) g))))
                [0..<nat (unpack_i32_le (take 4 (drop 24 g)))]" .
  from arg_cong [OF m, of length]
  show "int (length (material_blocks mats')) = max 0 (unpack_i32_le (take 4 (drop 24 g)))"
    by simp
qed

text \<open>The theorem at the two blocks that declare the sizes 2, 0 and -1.\<close>

theorem C10_material_blobs_witness:
  "material_blocks_loop MaterialBlockTruncated [0x61, 0x62] 2 (- 1 # []) [[0x61, 0x62], []]
     = material_blocks_loop MaterialBlockTruncated [0x61, 0x62] 2 []
         ([[0x61, 0x62], []] @ [[]])
   \<and> material_blocks_loop MaterialBlockTruncated [0x61, 0x62] 0 [2, 0, - 1] []
       = Inr ([[0x61, 0x62], [], []], 2)
   \<and> map (\<lambda>b. int (length b)) [[0x61, 0x62 :: byte], [], []] = map (max 0) [2, 0, - 1]
   \<and> parse_material_block_v1_new example_libs three_blobs_block = Inr (three_blobs, [])
   \<and> int (length (material_blocks three_blobs))
       = max 0 (unpack_i32_le (take 4 (drop 16 three_blobs_block)))
   \<and> parse_material_block_v1_old example_libs three_blobs_legacy_block
       = Inr ((three_blobs, [], []), [])
   \<and> int (length (material_blocks three_blobs))
       = max 0 (unpack_i32_le (take 4 (drop 24 three_blobs_legacy_block)))"
proof -
  have l: "material_blocks_loop MaterialBlockTruncated [0x61, 0x62] 0 [2, 0, - 1] []
       = Inr ([[0x61, 0x62], [], []], 2)"
    by (simp add: eval_defs)
  have z: "(- 1 :: int) \<le> 0"
    by simp
  note t = C10_material_blobs [where c = example_libs and f = three_blobs_block
      and mats = three_blobs and f' = "[]" and g = three_blobs_legacy_block
      and mats' = three_blobs and vs = "[]" and fs = "[]" and g' = "[]"
      and err = MaterialBlockTruncated and raw = "[0x61, 0x62]" and sz = "- 1"]
  note t1 = t [where ptr = 2 and sizes = "[]" and blocks = "[[0x61, 0x62], []]",
      THEN conjunct1, THEN mp, OF z]
  note t2 = t [where ptr = 0 and sizes = "[2, 0, - 1]" and bs = "[[0x61, 0x62], [], []]"
      and p = 2, THEN conjunct2, THEN conjunct1, THEN mp, OF l]
  note t3 = t [THEN conjunct2, THEN conjunct2, THEN conjunct1, THEN mp,
      OF parse_three_blobs_block]
  note t4 = t [THEN conjunct2, THEN conjunct2, THEN conjunct2, THEN mp,
      OF parse_three_blobs_legacy_block]
  from t1 t2 t3 t4 l parse_three_blobs_block parse_three_blobs_legacy_block
  show ?thesis
    by blast
qed

text \<open>The claim as stated fails when the declared material count is negative: the
  block that declares -1 materials parses, and so does the versioned file that holds it,
  with an empty list of blobs, whose length 0 is not the declared count.\<close>

theorem C10_negative_count_counterexample:
  "unpack_i32_le (take 4 (drop 16 negative_material_count_block)) = - 1
   \<and> parse_material_block_v1_new example_libs negative_material_count_block
       = Inr (no_materials, [])
   \<and> load_cxbin example_libs
        (geometry_only_file @ pack_i32_le 1 @ negative_material_count_block)
       = Inr (geometry_only_mesh\<lparr>materials := Some no_materials, cxbin_version := Some 1\<rparr>)
   \<and> int (length (material_blocks no_materials)) = 0"
  by (simp add: parse_negative_material_count_block)
     (simp add: negative_material_count_block_def no_materials_def geometry_only_mesh_def
        eval_files)

end
